theory Spec2Isabelle
  imports Complex_Main "HOL-Library.AList"
begin

section \<open>JavaScript values and objects\<close>

text \<open>
  Request bodies, query strings, documents and hook results are JavaScript values.
  A number is \<open>NaN\<close>, one of the two infinities, or finite: a finite number is given
  by the rational it denotes.  An object is an association list in insertion order.
\<close>

datatype jv =
    JUndefined
  | JNull
  | JBool bool
  | JNum rat
  | JNaN
  | JInfinity
  | JNegInfinity
  | JStr string
  | JArr "jv list"
  | JObj "(string \<times> jv) list"

type_synonym obj = "(string \<times> jv) list"

text \<open>\<open>!value\<close> is \<open>\<not> truthy value\<close>.\<close>

fun truthy :: "jv \<Rightarrow> bool" where
  "truthy JUndefined = False"
| "truthy JNull = False"
| "truthy (JBool b) = b"
| "truthy (JNum n) = (n \<noteq> 0)"
| "truthy JNaN = False"
| "truthy JInfinity = True"
| "truthy JNegInfinity = True"
| "truthy (JStr s) = (s \<noteq> [])"
| "truthy (JArr xs) = True"
| "truthy (JObj kvs) = True"

text \<open>Property read \<open>o.k\<close>: a missing property reads as \<open>undefined\<close>.\<close>

definition get :: "obj \<Rightarrow> string \<Rightarrow> jv" where
  "get ob k = (case map_of ob k of None \<Rightarrow> JUndefined | Some v \<Rightarrow> v)"

text \<open>
  \<open>assign target src\<close> copies the properties of \<open>src\<close> onto \<open>target\<close> one by one, as the
  spread \<open>{...target, ...src}\<close> does: a key already present keeps its place and takes
  the new value, a new key is appended.
\<close>

definition assign :: "obj \<Rightarrow> obj \<Rightarrow> obj" where
  "assign target src = fold (\<lambda>(k, v). AList.update k v) src target"

text \<open>\<open>{...a, ...b}\<close>\<close>

definition spread :: "obj \<Rightarrow> obj \<Rightarrow> obj" where
  "spread a b = assign (assign [] a) b"

section \<open>Requests, the response envelope and the router\<close>

record request =
  req_method :: string
  req_path :: string
  body :: obj
  query :: obj

text \<open>\<open>Return<T>\<close> of helpers/return.ts: every field is optional.\<close>

record Return =
  message :: "string option"
  payload :: jv
  debug :: "string option"

text \<open>What \<open>response.status(s).send(result)\<close> puts on the wire.\<close>

record response =
  status :: int
  sent :: Return

text \<open>The exceptions of the code are \<open>Error\<close> objects; \<open>msg\<close> is \<open>error.message\<close>.\<close>

datatype exn = Error (msg: string)

text \<open>
  A call of a collaborator that may return a promise: it throws synchronously, or the
  promise rejects, or it resolves.
\<close>

datatype 'a outcome = Thrown exn | Rejected exn | Resolved 'a

text \<open>The collaborator calls a handler makes, with the data record it passes.\<close>

datatype target =
    Fn nat
  | ContextAuthenticate
  | Create
  | Read
  | Update
  | Delete

text \<open>
  What a handler does with the request in the end: it sends a response, it calls
  \<open>next(v)\<close> (\<open>next()\<close> is \<open>Next JUndefined\<close>), or it throws.
\<close>

datatype action = Respond response | Next jv | Throw exn

section \<open>The document store behind the ORM\<close>

text \<open>
  The ORM is a collaborator: the code only calls it.  A collection is the list of
  its documents; \<open>fault\<close>, when set, is the error every operation on the collection
  rejects with (a lost connection, say), so that the failure branches of the
  handlers can be reached.  A condition compares one field with a given value; query
  operators and schema casting are not modelled.
\<close>

text \<open>
  What the sources at hand do not decide is a parameter of the model: the number a
  string converts to when it is not a short run of decimal digits
  (\<open>string_to_number\<close>; this conversion never throws); the number an array or an
  object converts to, or the \<open>TypeError\<close> its conversion throws (\<open>to_number\<close>); the
  product of two numbers when it is not a product of whole numbers that the
  floating-point format holds exactly (\<open>product\<close>); and what the ORM does with a skip
  or a limit that is not a whole number in the range of a count (\<open>skip_other\<close>,
  \<open>limit_other\<close>).
\<close>

record platform =
  string_to_number :: "string \<Rightarrow> jv"
  to_number :: "jv \<Rightarrow> exn + jv"
  product :: "jv \<Rightarrow> jv \<Rightarrow> jv"
  skip_other :: "jv \<Rightarrow> obj list \<Rightarrow> exn + obj list"
  limit_other :: "jv \<Rightarrow> obj list \<Rightarrow> exn + obj list"

record collection =
  docs :: "obj list"
  fault :: "exn option"
  next_id :: nat

definition matches :: "obj \<Rightarrow> obj \<Rightarrow> bool" where
  "matches conditions doc = list_all (\<lambda>(k, v). map_of doc k = Some v) conditions"

text \<open>\<open>.find(query)\<close>\<close>

definition find_docs :: "collection \<Rightarrow> obj \<Rightarrow> exn + obj list" where
  "find_docs db conditions =
     (case fault db of Some e \<Rightarrow> Inl e | None \<Rightarrow> Inr (filter (matches conditions) (docs db)))"

text \<open>
  \<open>.skip(n)\<close> and \<open>.limit(n)\<close> on the result of a \<open>find\<close>.  For a whole number from 0
  to \<open>2^31 - 1\<close> the first leaves out that many rows; for a whole number from 1 to
  \<open>2^31 - 1\<close> the second keeps at most that many.
\<close>

fun count_of :: "jv \<Rightarrow> nat option" where
  "count_of (JNum r) =
     (if r = of_int \<lfloor>r\<rfloor> \<and> 0 \<le> r \<and> r < 2 ^ 31 then Some (nat \<lfloor>r\<rfloor>) else None)"
| "count_of v = None"

definition skip :: "platform \<Rightarrow> jv \<Rightarrow> obj list \<Rightarrow> exn + obj list" where
  "skip P n rows =
     (case count_of n of Some k \<Rightarrow> Inr (drop k rows) | None \<Rightarrow> skip_other P n rows)"

definition limit :: "platform \<Rightarrow> jv \<Rightarrow> obj list \<Rightarrow> exn + obj list" where
  "limit P n rows =
     (case count_of n of
        Some (Suc k) \<Rightarrow> Inr (take (Suc k) rows)
      | _ \<Rightarrow> limit_other P n rows)"

definition countDocuments :: "collection \<Rightarrow> obj \<Rightarrow> exn + int" where
  "countDocuments db conditions =
     (case fault db of Some e \<Rightarrow> Inl e
      | None \<Rightarrow> Inr (int (length (filter (matches conditions) (docs db)))))"

text \<open>\<open>.findOne(conditions)\<close> resolves to the first matching document, or to \<open>null\<close>.\<close>

definition findOne :: "collection \<Rightarrow> obj \<Rightarrow> exn + jv" where
  "findOne db conditions =
     (case fault db of Some e \<Rightarrow> Inl e
      | None \<Rightarrow> Inr (case List.find (matches conditions) (docs db) of
                       None \<Rightarrow> JNull | Some d \<Rightarrow> JObj d))"

text \<open>
  \<open>.updateOne(conditions, {$set: changes})\<close> changes the first matching document, if
  there is one, and resolves to the write result: an object that counts the
  documents matched (\<open>n\<close>) and modified (\<open>nModified\<close>).  It resolves to that object
  also when nothing matched.
\<close>

fun set_first :: "obj \<Rightarrow> obj \<Rightarrow> obj list \<Rightarrow> obj list" where
  "set_first conditions changes [] = []"
| "set_first conditions changes (d # ds) =
     (if matches conditions d then assign d changes # ds
      else d # set_first conditions changes ds)"

definition write_result :: "obj list \<Rightarrow> obj list \<Rightarrow> obj \<Rightarrow> jv" where
  "write_result old new conditions =
     JObj [(''n'', JNum (if list_ex (matches conditions) old then 1 else 0)),
           (''nModified'', JNum (if new = old then 0 else 1)),
           (''ok'', JNum 1)]"

definition updateOne :: "collection \<Rightarrow> obj \<Rightarrow> obj \<Rightarrow> collection \<times> (exn + jv)" where
  "updateOne db conditions changes =
     (case fault db of Some e \<Rightarrow> (db, Inl e)
      | None \<Rightarrow>
          (let new = set_first conditions changes (docs db)
           in (db\<lparr>docs := new\<rparr>, Inr (write_result (docs db) new conditions))))"

text \<open>
  \<open>.findOneAndRemove(conditions)\<close> removes the first matching document and resolves
  to it, or resolves to \<open>null\<close> when nothing matched.
\<close>

definition findOneAndRemove :: "collection \<Rightarrow> obj \<Rightarrow> collection \<times> (exn + jv)" where
  "findOneAndRemove db conditions =
     (case fault db of Some e \<Rightarrow> (db, Inl e)
      | None \<Rightarrow>
          (case List.find (matches conditions) (docs db) of
             None \<Rightarrow> (db, Inr JNull)
           | Some d \<Rightarrow> (db\<lparr>docs := remove1 d (docs db)\<rparr>, Inr (JObj d))))"

text \<open>
  \<open>new Model(data).save()\<close> stores the document, giving it an identifier when it has
  none (the value of a counter stands for the generated identifier), and resolves to
  the stored document.
\<close>

definition save :: "collection \<Rightarrow> obj \<Rightarrow> collection \<times> (exn + obj)" where
  "save db data =
     (case fault db of Some e \<Rightarrow> (db, Inl e)
      | None \<Rightarrow>
          (let doc = (if get data ''_id'' = JUndefined
                      then AList.update ''_id'' (JNum (of_nat (next_id db))) data else data)
           in (db\<lparr>docs := docs db @ [doc], next_id := Suc (next_id db)\<rparr>, Inr doc)))"

section \<open>Handlers and the router\<close>

text \<open>
  A handler takes the request (and the collection, which only the CRUD handlers
  touch) and reports the collaborator calls it made, what it did with the request,
  and the collection it leaves behind.
\<close>

record step =
  calls :: "(target \<times> obj) list"
  act :: action
  store :: collection

type_synonym handler = "request \<Rightarrow> collection \<Rightarrow> step"

text \<open>
  \<open>app[method](path, handler)\<close> registers a \<open>Route\<close>; \<open>app.use(handler)\<close> registers
  a handler for every request.  Paths are compared as strings.
\<close>

datatype route = Route string string handler | Use handler

fun route_matches :: "route \<Rightarrow> request \<Rightarrow> bool" where
  "route_matches (Route m p h) request = (req_method request = m \<and> req_path request = p)"
| "route_matches (Use h) request = True"

fun route_handler :: "route \<Rightarrow> handler" where
  "route_handler (Route m p h) = h"
| "route_handler (Use h) = h"

text \<open>
  The router runs the matching handlers in registration order.  A handler that
  responds or throws ends the chain.  After \<open>next(v)\<close> the framework decides from \<open>v\<close>
  whether the next matching handler runs: that decision is the parameter
  \<open>continues\<close>.  The result lists the steps of the handlers that ran.
\<close>

fun run_chain :: "(jv \<Rightarrow> bool) \<Rightarrow> handler list \<Rightarrow> request \<Rightarrow> collection \<Rightarrow> step list" where
  "run_chain continues [] request db = []"
| "run_chain continues (h # hs) request db =
     h request db #
       (case act (h request db) of
          Next v \<Rightarrow> (if continues v then run_chain continues hs request (store (h request db))
                     else [])
        | Respond r \<Rightarrow> []
        | Throw e \<Rightarrow> [])"

definition dispatch :: "(jv \<Rightarrow> bool) \<Rightarrow> route list \<Rightarrow> request \<Rightarrow> collection \<Rightarrow> step list" where
  "dispatch continues table request db =
     run_chain continues (map route_handler (filter (\<lambda>r. route_matches r request) table))
       request db"

text \<open>The responses a run emitted.\<close>

fun responses :: "step list \<Rightarrow> response list" where
  "responses [] = []"
| "responses (s # ss) = (case act s of Respond r \<Rightarrow> r # responses ss | _ \<Rightarrow> responses ss)"

section \<open>handlers.ts: the fallback middleware\<close>

text \<open>\<open>constants.strings\<close> is not part of the sources at hand: its two texts are parameters.\<close>

record constants =
  not_found_error :: string
  too_large_error :: string

text \<open>The first \<open>app.http.use\<close>: the 404 responder.\<close>

definition not_found :: "constants \<Rightarrow> handler" where
  "not_found c request db =
     \<lparr>calls = [],
      act = Respond \<lparr>status = 404,
                     sent = \<lparr>message = Some (not_found_error c),
                             payload = JObj (body request),
                             debug = Some (not_found_error c)\<rparr>\<rparr>,
      store = db\<rparr>"

text \<open>
  The second \<open>app.http.use\<close> takes four arguments, so it is an error-handling stage:
  it is given the error \<open>{type, message}\<close>.  \<open>Inl\<close> is the error thrown again.
\<close>

record http_error =
  err_type :: string
  err_message :: string

definition too_large :: "constants \<Rightarrow> http_error \<Rightarrow> request \<Rightarrow> http_error + response" where
  "too_large c error request =
     (if err_type error = ''entity.too.large''
      then Inr \<lparr>status = 413,
                sent = \<lparr>message = Some (too_large_error c),
                        payload = JObj (body request),
                        debug = Some (err_message error)\<rparr>\<rparr>
      else Inl error)"

section \<open>service.ts: the response envelope and promise chains\<close>

text \<open>The third argument of \<open>exit\<close>: message, status and debug detail.\<close>

record options =
  o_message :: "string option"
  o_status :: int
  o_debug :: "string option"

definition exit :: "jv \<Rightarrow> options \<Rightarrow> response" where
  "exit v opts =
     \<lparr>status = o_status opts,
      sent = \<lparr>message = o_message opts, payload = v, debug = o_debug opts\<rparr>\<rparr>"

text \<open>
  \<open>p.then(on_then).catch(on_catch)\<close> as a handler returns it.  The \<open>then\<close> callback
  acts or throws (\<open>Inl\<close>); a throw there reaches the \<open>catch\<close> callback, as a
  rejection of \<open>p\<close> does.  When the call that should have made \<open>p\<close> threw, there is no
  promise and the handler throws.
\<close>

definition settle :: "'a outcome \<Rightarrow> ('a \<Rightarrow> exn + action) \<Rightarrow> (exn \<Rightarrow> action) \<Rightarrow> action" where
  "settle p on_then on_catch =
     (case p of
        Thrown e \<Rightarrow> Throw e
      | Rejected e \<Rightarrow> on_catch e
      | Resolved v \<Rightarrow> (case on_then v of Inl e \<Rightarrow> on_catch e | Inr a \<Rightarrow> a))"

section \<open>service.ts: sub-routes\<close>

text \<open>
  Hooks and callbacks are function objects.  \<open>indexOf\<close> compares them by identity, so
  a function is named by its reference, and \<open>funs\<close> gives the behaviour behind
  each reference: what a call with a data record comes to.
\<close>

type_synonym funs = "nat \<Rightarrow> obj \<Rightarrow> jv outcome"

record hooks =
  before :: "nat list option"
  after :: "nat list option"

text \<open>\<open>Subservice<T>\<close>, a value of the \<open>Microservices<T>\<close> map.\<close>

record subservice =
  sub_method :: string
  sub_message :: "string option"
  sub_error :: "string option"
  sub_authenticate :: bool
  sub_hooks :: "hooks option"
  sub_callback :: "nat option"

text \<open>\<open>value.hooks?.before\<close> and \<open>value.hooks?.after\<close>\<close>

definition hooks_before :: "subservice \<Rightarrow> nat list option" where
  "hooks_before svc = (case sub_hooks svc of None \<Rightarrow> None | Some h \<Rightarrow> before h)"

definition hooks_after :: "subservice \<Rightarrow> nat list option" where
  "hooks_after svc = (case sub_hooks svc of None \<Rightarrow> None | Some h \<Rightarrow> after h)"

text \<open>\<open>Array.prototype.indexOf\<close>: the first index holding the element, or \<open>-1\<close>.\<close>

fun indexOf_from :: "int \<Rightarrow> 'a list \<Rightarrow> 'a \<Rightarrow> int" where
  "indexOf_from i [] x = - 1"
| "indexOf_from i (y # ys) x = (if y = x then i else indexOf_from (i + 1) ys x)"

definition indexOf :: "'a list \<Rightarrow> 'a \<Rightarrow> int" where
  "indexOf xs x = indexOf_from 0 xs x"

text \<open>The application context, as far as a Service uses it: its \<open>authenticate\<close> check.\<close>

record application =
  ctx_authenticate :: "obj \<Rightarrow> jv outcome"

definition route_path :: "string \<Rightarrow> string \<Rightarrow> string" where
  "route_path name key = ''/'' @ name @ ''/'' @ key"

text \<open>\<open>Service.authenticate\<close>: the handler it registers, and the registration.\<close>

definition authenticate_handler :: "application \<Rightarrow> handler" where
  "authenticate_handler context request db =
     (let data = spread (body request) (query request) in
      \<lparr>calls = [(ContextAuthenticate, data)],
       act = settle (ctx_authenticate context data)
               (\<lambda>v. if \<not> truthy v then Inl (Error ''Oops, authentication error occurred!'')
                    else Inr (Next JUndefined))
               (\<lambda>error. Respond (exit (JObj data)
                           \<lparr>o_message = Some ''Oops, authentication error occurred!'',
                            o_status = 412,
                            o_debug = Some (msg error)\<rparr>)),
       store = db\<rparr>)"

definition authenticate :: "application \<Rightarrow> string \<Rightarrow> subservice \<Rightarrow> string \<Rightarrow> route list" where
  "authenticate context name service key =
     (if sub_authenticate service
      then [Route (sub_method service) (route_path name key) (authenticate_handler context)]
      else [])"

text \<open>
  The local \<open>hooker\<close> of \<open>addservices\<close>.  An after-hook handler is only registered
  for the entries of an \<open>after\<close> list; were there no list, \<open>indexOf\<close> would be called on
  \<open>undefined\<close> and the \<open>TypeError\<close> would reach the \<open>catch\<close> callback.
\<close>

datatype hook_kind = Before | After

definition hooker_handler :: "funs \<Rightarrow> subservice \<Rightarrow> nat \<Rightarrow> hook_kind \<Rightarrow> handler" where
  "hooker_handler F svc callback hook request db =
     (let data = spread (body request) (query request) in
      \<lparr>calls = [(Fn callback, data)],
       act = settle (F callback data)
               (\<lambda>result.
                  if hook = Before then Inr (Next result)
                  else (case hooks_after svc of
                          None \<Rightarrow> Inl (Error ''TypeError'')
                        | Some after_list \<Rightarrow>
                            if indexOf after_list callback = int (length after_list) - 1
                            then Inr (Respond (exit result
                                        \<lparr>o_message = sub_message svc,
                                         o_status = 200,
                                         o_debug = None\<rparr>))
                            else Inr (Next result)))
               (\<lambda>error. Respond (exit (JObj data)
                           \<lparr>o_message = sub_error svc,
                            o_status = 422,
                            o_debug = Some (msg error)\<rparr>)),
       store = db\<rparr>)"

definition hooker :: "funs \<Rightarrow> string \<Rightarrow> string \<Rightarrow> subservice \<Rightarrow> nat \<Rightarrow> hook_kind \<Rightarrow> route" where
  "hooker F name key svc callback hook =
     Route (sub_method svc) (route_path name key) (hooker_handler F svc callback hook)"

text \<open>The handler of \<open>value.callback\<close>.\<close>

definition callback_handler :: "funs \<Rightarrow> subservice \<Rightarrow> nat \<Rightarrow> handler" where
  "callback_handler F svc callback request db =
     (let data = spread (body request) (query request) in
      \<lparr>calls = [(Fn callback, data)],
       act = settle (F callback data)
               (\<lambda>result.
                  if hooks_after svc = None
                  then Inr (Respond (exit result
                              \<lparr>o_message = sub_message svc,
                               o_status = 200,
                               o_debug = None\<rparr>))
                  else Inr (Next result))
               (\<lambda>error. Respond (exit (JObj data)
                           \<lparr>o_message = sub_error svc,
                            o_status = 422,
                            o_debug = Some (msg error)\<rparr>)),
       store = db\<rparr>)"

text \<open>
  One round of the \<open>forEach\<close> of \<open>addservices\<close>: the routes registered for one entry,
  in registration order.
\<close>

definition entry_routes :: "funs \<Rightarrow> application \<Rightarrow> string \<Rightarrow> string \<Rightarrow> subservice \<Rightarrow> route list" where
  "entry_routes F context name key svc =
     authenticate context name svc key
     @ map (\<lambda>callback. hooker F name key svc callback Before)
         (case hooks_before svc of None \<Rightarrow> [] | Some bs \<Rightarrow> bs)
     @ (case sub_callback svc of
          None \<Rightarrow> []
        | Some callback \<Rightarrow>
            [Route (sub_method svc) (route_path name key) (callback_handler F svc callback)])
     @ map (\<lambda>callback. hooker F name key svc callback After)
         (case hooks_after svc of None \<Rightarrow> [] | Some as \<Rightarrow> as)"

definition addservices :: "funs \<Rightarrow> application \<Rightarrow> string \<Rightarrow> (string \<times> subservice) list \<Rightarrow> route list" where
  "addservices F context name services =
     concat (map (\<lambda>(key, svc). entry_routes F context name key svc) services)"

section \<open>service.ts: the CRUD methods\<close>

text \<open>\<open>typeof v === 'number'\<close>\<close>

fun is_number :: "jv \<Rightarrow> bool" where
  "is_number (JNum n) = True"
| "is_number JNaN = True"
| "is_number JInfinity = True"
| "is_number JNegInfinity = True"
| "is_number v = False"

text \<open>A value handed back by the platform where a number is due counts as \<open>NaN\<close>
  unless it is a number.\<close>

definition numeric :: "jv \<Rightarrow> jv" where
  "numeric r = (if is_number r then r else JNaN)"

text \<open>
  The number a string converts to.  One to fifteen decimal digits write a whole
  number below \<open>2 ^ 53\<close>, which the conversion yields exactly; every other string is
  left to the platform.
\<close>

definition digit :: "char \<Rightarrow> int option" where
  "digit = map_of (zip ''0123456789'' [0, 1, 2, 3, 4, 5, 6, 7, 8, 9])"

fun decimal :: "int \<Rightarrow> string \<Rightarrow> int option" where
  "decimal acc [] = Some acc"
| "decimal acc (c # cs) =
     (case digit c of None \<Rightarrow> None | Some d \<Rightarrow> decimal (10 * acc + d) cs)"

definition StringToNumber :: "platform \<Rightarrow> string \<Rightarrow> jv" where
  "StringToNumber P s =
     (if s \<noteq> [] \<and> length s \<le> 15
      then (case decimal 0 s of
              Some n \<Rightarrow> JNum (of_int n)
            | None \<Rightarrow> numeric (string_to_number P s))
      else numeric (string_to_number P s))"

text \<open>
  \<open>Number(v)\<close>.  The conversion of an array or an object runs the value's own
  conversion methods and may throw; when it does not, the result is a number.
\<close>

fun Number :: "platform \<Rightarrow> jv \<Rightarrow> exn + jv" where
  "Number P JUndefined = Inr JNaN"
| "Number P JNull = Inr (JNum 0)"
| "Number P (JBool b) = Inr (JNum (if b then 1 else 0))"
| "Number P (JNum n) = Inr (JNum n)"
| "Number P JNaN = Inr JNaN"
| "Number P JInfinity = Inr JInfinity"
| "Number P JNegInfinity = Inr JNegInfinity"
| "Number P (JStr s) = Inr (StringToNumber P s)"
| "Number P v =
     (case to_number P v of
        Inl e \<Rightarrow> Inl e
      | Inr r \<Rightarrow> Inr (numeric r))"

text \<open>
  \<open>a * b\<close> for two numbers.  The product of two whole numbers is exact when its
  magnitude is below \<open>2 ^ 53\<close>; every other product is the platform's.
\<close>

definition whole :: "rat \<Rightarrow> bool" where
  "whole r = (r = of_int \<lfloor>r\<rfloor>)"

definition multiply :: "platform \<Rightarrow> jv \<Rightarrow> jv \<Rightarrow> jv" where
  "multiply P a b =
     (case (a, b) of
        (JNum x, JNum y) \<Rightarrow>
          if whole x \<and> whole y \<and> \<bar>x * y\<bar> < 2 ^ 53 then JNum (x * y) else product P a b
      | _ \<Rightarrow> product P a b)"

text \<open>\<open>a > k\<close> for a number \<open>a\<close> and a finite \<open>k\<close>: false when \<open>a\<close> is \<open>NaN\<close>.\<close>

fun exceeds :: "jv \<Rightarrow> rat \<Rightarrow> bool" where
  "exceeds (JNum r) k = (k < r)"
| "exceeds JInfinity k = True"
| "exceeds v k = False"

text \<open>\<open>if (typeof data[k] !== 'number') data[k] = Number(data[k])\<close>\<close>

definition coerce :: "platform \<Rightarrow> obj \<Rightarrow> string \<Rightarrow> exn + obj" where
  "coerce P data k =
     (if \<not> is_number (get data k)
      then (case Number P (get data k) of
              Inl e \<Rightarrow> Inl e
            | Inr n \<Rightarrow> Inr (AList.update k n data))
      else Inr data)"

definition create :: "collection \<Rightarrow> obj \<Rightarrow> collection \<times> jv outcome" where
  "create db data =
     (case save db data of
        (db', Inl e) \<Rightarrow> (db', Rejected e)
      | (db', Inr doc) \<Rightarrow> (db', Resolved (JObj doc)))"

text \<open>
  \<open>read\<close> assigns the converted \<open>page\<close> and \<open>size\<close> to the record it was given, which
  is the record its caller holds: the record is returned with the promise's outcome.
  \<open>read\<close> is an \<open>async\<close> function, so whatever is thrown in it rejects its promise.
  After the two assignments \<open>data.page\<close> and \<open>data.size\<close> are numbers.
\<close>

definition read :: "platform \<Rightarrow> collection \<Rightarrow> obj \<Rightarrow> obj \<times> jv outcome" where
  "read P db data0 =
     (case coerce P data0 ''page'' of
        Inl e \<Rightarrow> (data0, Rejected e)
      | Inr data1 \<Rightarrow>
          (case coerce P data1 ''size'' of
             Inl e \<Rightarrow> (data1, Rejected e)
           | Inr data \<Rightarrow>
               (let query = AList.delete ''size'' (AList.delete ''page'' data)
                in (data,
                    if exceeds (get data ''page'') (- 1) \<and> exceeds (get data ''size'') 0
                    then (case find_docs db query of
                            Inl e \<Rightarrow> Rejected e
                          | Inr rows \<Rightarrow>
                              (case skip P (multiply P (get data ''page'') (get data ''size''))
                                      rows of
                                 Inl e \<Rightarrow> Rejected e
                               | Inr rest \<Rightarrow>
                                   (case limit P (get data ''size'') rest of
                                      Inl e \<Rightarrow> Rejected e
                                    | Inr page \<Rightarrow>
                                        (case countDocuments db query of
                                           Inl e \<Rightarrow> Rejected e
                                         | Inr n \<Rightarrow>
                                             Resolved (JObj
                                               [(''page'', JArr (map JObj page)),
                                                (''length'', JNum (of_int n))])))))
                    else (case find_docs db query of
                            Inl e \<Rightarrow> Rejected e
                          | Inr rows \<Rightarrow> Resolved (JArr (map JObj rows)))))))"

definition update :: "string \<Rightarrow> collection \<Rightarrow> obj \<Rightarrow> collection \<times> jv outcome" where
  "update name db data =
     (case updateOne db [(''_id'', get data ''_id'')] data of
        (db', Inl e) \<Rightarrow> (db', Rejected e)
      | (db', Inr v) \<Rightarrow>
          (db', if \<not> truthy v then Rejected (Error (''Oops, '' @ name @ '' does not exist!''))
                else Resolved (JObj data)))"

definition delete :: "string \<Rightarrow> collection \<Rightarrow> obj \<Rightarrow> collection \<times> jv outcome" where
  "delete name db data =
     (case findOneAndRemove db [(''_id'', get data ''_id'')] of
        (db', Inl e) \<Rightarrow> (db', Rejected e)
      | (db', Inr v) \<Rightarrow>
          (db', if \<not> truthy v then Rejected (Error (''Oops, could not remove '' @ name))
                else Resolved (JObj data)))"

section \<open>service.ts: the CRUD routes\<close>

definition post_handler :: "string \<Rightarrow> handler" where
  "post_handler name request db =
     (let data = spread (body request) (query request);
          r = create db data
      in \<lparr>calls = [(Create, data)],
          act = settle (snd r)
                  (\<lambda>v. Inr (Respond (exit v
                          \<lparr>o_message = Some (''Hi, an '' @ name @ '' has been created!''),
                           o_status = 201,
                           o_debug = None\<rparr>)))
                  (\<lambda>error. Respond (exit (JObj data)
                              \<lparr>o_message = Some (''Oops, could not create '' @ name @ ''!''),
                               o_status = 422,
                               o_debug = Some (msg error)\<rparr>)),
          store = fst r\<rparr>)"

definition get_handler :: "platform \<Rightarrow> string \<Rightarrow> handler" where
  "get_handler P name request db =
     (let data = spread (body request) (query request);
          r = read P db data
      in \<lparr>calls = [(Read, data)],
          act = settle (snd r)
                  (\<lambda>v. Inr (Respond (exit v
                          \<lparr>o_message = Some ''Hi, a data payload is provided!'',
                           o_status = 200,
                           o_debug = None\<rparr>)))
                  (\<lambda>error. Respond (exit (JObj (fst r))
                              \<lparr>o_message = Some (''Oops, could not find '' @ name @ '' list!''),
                               o_status = 404,
                               o_debug = Some (msg error)\<rparr>)),
          store = db\<rparr>)"

definition put_handler :: "string \<Rightarrow> handler" where
  "put_handler name request db =
     (let data = spread (body request) (query request);
          r = update name db data
      in \<lparr>calls = [(Update, data)],
          act = settle (snd r)
                  (\<lambda>v. Inr (Respond (exit v
                          \<lparr>o_message = Some (''Hi, an '' @ name @ '' has been updated!''),
                           o_status = 200,
                           o_debug = None\<rparr>)))
                  (\<lambda>error. Respond (exit (JObj data)
                              \<lparr>o_message = Some (''Oops, could not update '' @ name @ ''!''),
                               o_status = 413,
                               o_debug = Some (msg error)\<rparr>)),
          store = fst r\<rparr>)"

definition delete_handler :: "string \<Rightarrow> handler" where
  "delete_handler name request db =
     (let data = spread (body request) (query request);
          r = delete name db data
      in \<lparr>calls = [(Delete, data)],
          act = settle (snd r)
                  (\<lambda>v. Inr (Respond (exit v
                          \<lparr>o_message = Some (''Hi, an '' @ name @ '' has been removed!''),
                           o_status = 200,
                           o_debug = None\<rparr>)))
                  (\<lambda>error. Respond (exit (JObj data)
                              \<lparr>o_message = Some (''Oops, could not remove '' @ name @ ''!''),
                               o_status = 422,
                               o_debug = Some (msg error)\<rparr>)),
          store = fst r\<rparr>)"

definition crud :: "platform \<Rightarrow> string \<Rightarrow> route list" where
  "crud P name =
     [Route ''post'' (''/'' @ name) (post_handler name),
      Route ''get'' (''/'' @ name) (get_handler P name),
      Route ''put'' (''/'' @ name) (put_handler name),
      Route ''delete'' (''/'' @ name) (delete_handler name)]"

section \<open>service.ts: service-wide hooks and the constructor\<close>

text \<open>
  The private method \<open>hooker\<close> of the Service (named \<open>Service_hooker\<close> here, the
  local \<open>hooker\<close> of \<open>addservices\<close> having the name) registers one handler per hook of
  a \<open>{post, put, get, delete}\<close> table, on the path of the resource.
\<close>

definition service_hook_handler :: "funs \<Rightarrow> nat \<Rightarrow> handler" where
  "service_hook_handler F callback request db =
     (let data = spread (body request) (query request) in
      \<lparr>calls = [(Fn callback, data)],
       act = settle (F callback data)
               (\<lambda>result. Inr (Respond (exit (JObj data)
                           \<lparr>o_message = None, o_status = 201, o_debug = None\<rparr>)))
               (\<lambda>error. Respond (exit (JObj data)
                           \<lparr>o_message = Some ''Oops, a service error occurred!'',
                            o_status = 422,
                            o_debug = Some (msg error)\<rparr>)),
       store = db\<rparr>)"

definition Service_hooker :: "funs \<Rightarrow> string \<Rightarrow> (string \<times> nat list option) list \<Rightarrow> route list" where
  "Service_hooker F name table =
     concat (map (\<lambda>(key, v).
                    case v of
                      None \<Rightarrow> []
                    | Some callbacks \<Rightarrow>
                        map (\<lambda>callback. Route key (''/'' @ name) (service_hook_handler F callback))
                          callbacks)
                 table)"

record ServiceHooks =
  sh_before :: "(string \<times> nat list option) list option"
  sh_after :: "(string \<times> nat list option) list option"

text \<open>The constructor: \<open>before()\<close>, then \<open>crud()\<close> if a store was named, then \<open>after()\<close>.\<close>

definition Service :: "funs \<Rightarrow> platform \<Rightarrow> string \<Rightarrow> string option \<Rightarrow> ServiceHooks option \<Rightarrow> route list" where
  "Service F P name store_name service_hooks =
     Service_hooker F name
       (case service_hooks of None \<Rightarrow> []
        | Some h \<Rightarrow> (case sh_before h of None \<Rightarrow> [] | Some t \<Rightarrow> t))
     @ (case store_name of None \<Rightarrow> [] | Some s \<Rightarrow> if s = [] then [] else crud P name)
     @ Service_hooker F name
         (case service_hooks of None \<Rightarrow> []
          | Some h \<Rightarrow> (case sh_after h of None \<Rightarrow> [] | Some t \<Rightarrow> t))"

section \<open>The user service: authorize\<close>

text \<open>\<open>users\<close> is the collection behind \<open>context.query('user').storage\<close>.\<close>

definition authorize :: "collection \<Rightarrow> obj \<Rightarrow> jv outcome" where
  "authorize users data =
     (if \<not> truthy (get data ''username'') then Thrown (Error ''Oops, username is required!'')
      else (case findOne users [(''username'', get data ''username''),
                                (''password'', get data ''password'')] of
              Inl e \<Rightarrow> Rejected e
            | Inr v \<Rightarrow>
                if \<not> truthy v then Rejected (Error ''Oops, username or password is incorrect!'')
                else Resolved v))"

section \<open>store.ts: the cache and the schema hooks\<close>

text \<open>
  The cache is \<open>{count, data}\<close>, \<open>data\<close> a dictionary from identifiers to documents.
  A document has an identifier; \<open>doc_id\<close> is \<open>value._id.toString()\<close>.
\<close>

record document =
  doc_id :: string
  doc_fields :: obj

record cache =
  cache_count :: nat
  cache_data :: "string \<rightharpoonup> document"

definition fresh_cache :: cache where
  "fresh_cache = \<lparr>cache_count = 0, cache_data = Map.empty\<rparr>"

text \<open>
  What the ORM hands to a hook is a document or a value that has no \<open>_id\<close>, such as
  the write result of an update.  On the latter \<open>value._id.toString()\<close> throws a
  \<open>TypeError\<close> before the cache is touched.  Each hook ends with \<open>next()\<close>, which hands
  over to the ORM and does not touch the cache.
\<close>

datatype hooked = Doc document | Plain obj

definition post_save :: "hooked \<Rightarrow> cache \<Rightarrow> exn + cache" where
  "post_save handed c =
     (case handed of
        Plain w \<Rightarrow> Inl (Error ''TypeError'')
      | Doc v \<Rightarrow>
          Inr (c\<lparr>cache_data := (cache_data c)(doc_id v \<mapsto> v),
                 cache_count := cache_count c + 1\<rparr>))"

definition post_update :: "hooked \<Rightarrow> cache \<Rightarrow> exn + cache" where
  "post_update handed c =
     (case handed of
        Plain w \<Rightarrow> Inl (Error ''TypeError'')
      | Doc v \<Rightarrow> Inr (c\<lparr>cache_data := (cache_data c)(doc_id v \<mapsto> v)\<rparr>))"

definition post_remove :: "hooked \<Rightarrow> cache \<Rightarrow> exn + cache" where
  "post_remove handed c =
     (case handed of
        Plain w \<Rightarrow> Inl (Error ''TypeError'')
      | Doc v \<Rightarrow> Inr (c\<lparr>cache_data := (cache_data c)(doc_id v := None)\<rparr>))"

text \<open>\<open>Object.keys(cache.data).length\<close>\<close>

definition entries :: "cache \<Rightarrow> nat" where
  "entries c = card (dom (cache_data c))"

text \<open>
  The life of a cache.  The ORM fires the post-save hook with the document saved and
  the post-remove hook with the document removed; the post-update hook is handed
  what the update yields.  A hook that throws leaves the cache as it was.
\<close>

datatype event = Saved document | Updated hooked | Removed document

fun fire :: "event \<Rightarrow> cache \<Rightarrow> cache" where
  "fire (Saved v) c = (case post_save (Doc v) c of Inl e \<Rightarrow> c | Inr c' \<Rightarrow> c')"
| "fire (Updated handed) c = (case post_update handed c of Inl e \<Rightarrow> c | Inr c' \<Rightarrow> c')"
| "fire (Removed v) c = (case post_remove (Doc v) c of Inl e \<Rightarrow> c | Inr c' \<Rightarrow> c')"

fun run :: "event list \<Rightarrow> cache \<Rightarrow> cache" where
  "run [] c = c"
| "run (e # es) c = run es (fire e c)"

text \<open>
  An update replaces: whenever the post-update hook is handed a document, the cache
  holds an entry for it.
\<close>

fun replacing :: "event list \<Rightarrow> cache \<Rightarrow> bool" where
  "replacing [] c = True"
| "replacing (Updated (Doc v) # es) c =
     (cache_data c (doc_id v) \<noteq> None \<and> replacing es (fire (Updated (Doc v)) c))"
| "replacing (e # es) c = replacing es (fire e c)"

text \<open>
  Along a life in which updates replace, the cache never holds more entries than it
  counts, and once an entry has been there, either it still is or the count has
  moved ahead of the number of entries.
\<close>

definition kept :: "string \<Rightarrow> cache \<Rightarrow> bool" where
  "kept k c = (finite (dom (cache_data c)) \<and> entries c \<le> cache_count c
               \<and> (cache_data c k \<noteq> None \<or> entries c < cache_count c))"

definition sound :: "cache \<Rightarrow> bool" where
  "sound c = (finite (dom (cache_data c)) \<and> entries c \<le> cache_count c)"

section \<open>Evaluation and helper lemmas\<close>

lemmas eval_defs = dispatch_def addservices_def entry_routes_def authenticate_def hooker_def
  hooks_before_def hooks_after_def route_path_def authenticate_handler_def hooker_handler_def
  callback_handler_def settle_def exit_def spread_def assign_def indexOf_def Service_def
  Service_hooker_def crud_def Let_def

lemma map_of_assign:
  "map_of (assign t s) k = (case map_of (rev s) k of Some v \<Rightarrow> Some v | None \<Rightarrow> map_of t k)"
proof (induction s arbitrary: t)
  case Nil
  then show ?case by (simp add: assign_def)
next
  case (Cons p s)
  obtain k' v' where p: "p = (k', v')" by (cases p)
  have "assign t (p # s) = assign (AList.update k' v' t) s"
    by (simp add: assign_def p)
  then show ?case
    using Cons.IH [of "AList.update k' v' t"]
    by (simp add: p map_of_append update_conv' map_add_def split: option.splits)
qed

lemma get_spread_query:
  assumes "distinct (map fst q)" "(k, v) \<in> set q"
  shows "get (spread b q) k = v"
proof -
  have "map_of (rev q) k = Some v"
    using assms by (simp add: distinct_rev rev_map [symmetric])
  then show ?thesis
    by (simp add: get_def spread_def map_of_assign)
qed

lemma run_chain_steps:
  "s \<in> set (run_chain continues hs request db) \<Longrightarrow> \<exists>h \<in> set hs. \<exists>db'. s = h request db'"
proof (induction hs arbitrary: db)
  case Nil
  then show ?case by simp
next
  case (Cons h hs)
  show ?case
  proof (cases "s = h request db")
    case True
    then show ?thesis by auto
  next
    case False
    with Cons.prems have "s \<in> set (run_chain continues hs request (store (h request db)))"
      by (auto split: action.splits if_splits)
    with Cons.IH show ?thesis by auto
  qed
qed

lemma calls_entry:
  "r \<in> set (entry_routes F context name key svc) \<Longrightarrow>
   c \<in> set (calls (route_handler r request db)) \<Longrightarrow>
   snd c = spread (body request) (query request)"
  by (auto simp: entry_routes_def authenticate_def hooker_def
        authenticate_handler_def hooker_handler_def callback_handler_def Let_def
        split: option.splits if_splits)

lemma calls_addservices:
  "r \<in> set (addservices F context name services) \<Longrightarrow>
   c \<in> set (calls (route_handler r request db)) \<Longrightarrow>
   snd c = spread (body request) (query request)"
  by (auto simp: addservices_def dest: calls_entry)

lemma calls_crud:
  "r \<in> set (crud P name) \<Longrightarrow>
   c \<in> set (calls (route_handler r request db)) \<Longrightarrow>
   snd c = spread (body request) (query request)"
  by (auto simp: crud_def post_handler_def get_handler_def put_handler_def
        delete_handler_def Let_def)

lemma calls_Service_hooker:
  "r \<in> set (Service_hooker F name table) \<Longrightarrow>
   c \<in> set (calls (route_handler r request db)) \<Longrightarrow>
   snd c = spread (body request) (query request)"
  by (auto simp: Service_hooker_def service_hook_handler_def Let_def split: option.splits)

lemma calls_Service:
  "r \<in> set (Service F P name store_name service_hooks) \<Longrightarrow>
   c \<in> set (calls (route_handler r request db)) \<Longrightarrow>
   snd c = spread (body request) (query request)"
  unfolding Service_def set_append Un_iff
  by (elim disjE) (auto dest: calls_Service_hooker calls_crud split: option.splits if_splits)

lemma dispatch_steps:
  "s \<in> set (dispatch continues table request db) \<Longrightarrow>
   \<exists>r \<in> set table. \<exists>db'. s = route_handler r request db'"
  unfolding dispatch_def by (drule run_chain_steps) auto

lemma hooks_after_flag: "hooks_after (svc\<lparr>sub_authenticate := b\<rparr>) = hooks_after svc"
  by (simp add: hooks_after_def)

lemma hooker_handler_flag:
  "hooker_handler F (svc\<lparr>sub_authenticate := b\<rparr>) callback hook = hooker_handler F svc callback hook"
  by (intro ext)
     (simp add: hooker_handler_def hooks_after_flag Let_def cong: if_cong option.case_cong)

lemma callback_handler_flag:
  "callback_handler F (svc\<lparr>sub_authenticate := b\<rparr>) callback = callback_handler F svc callback"
  by (intro ext)
     (simp add: callback_handler_def hooks_after_flag Let_def cong: if_cong option.case_cong)

lemma entry_routes_gate_first:
  "sub_authenticate svc \<Longrightarrow>
   entry_routes F context name key svc =
     Route (sub_method svc) (route_path name key) (authenticate_handler context)
       # entry_routes F context name key (svc\<lparr>sub_authenticate := False\<rparr>)"
  by (simp add: entry_routes_def authenticate_def hooks_before_def hooks_after_def hooker_def
        hooker_handler_flag callback_handler_flag cong: option.case_cong)

lemmas crud_eval_defs = dispatch_def crud_def put_handler_def get_handler_def update_def
  updateOne_def write_result_def matches_def settle_def exit_def spread_def assign_def
  get_def Let_def

lemma update_resolves:
  "fault db = None \<Longrightarrow> snd (update name db data) = Resolved (JObj data)"
  by (simp add: update_def updateOne_def write_result_def Let_def)

lemma delete_of_missing:
  "fault db = None \<Longrightarrow> \<not> list_ex (matches [(''_id'', get data ''_id'')]) (docs db) \<Longrightarrow>
   snd (delete name db data) = Rejected (Error (''Oops, could not remove '' @ name))"
  by (auto simp: delete_def findOneAndRemove_def find_None_iff list_ex_iff split: option.splits)

lemma is_number_numeric: "is_number (numeric r)"
  by (simp add: numeric_def)

lemma is_number_StringToNumber: "is_number (StringToNumber P s)"
  by (simp add: StringToNumber_def is_number_numeric split: option.splits)

lemma is_number_Number: "Number P v = Inr n \<Longrightarrow> is_number n"
  by (cases v) (auto simp: is_number_StringToNumber is_number_numeric split: sum.splits)

lemma Number_idem: "is_number v \<Longrightarrow> Number P v = Inr v"
  by (cases v) simp_all

lemma Number_digits:
  "Number P (JStr ''0'') = Inr (JNum 0)" "Number P (JStr ''10'') = Inr (JNum 10)"
  by (simp_all add: StringToNumber_def digit_def)

lemma get_update: "get (AList.update k v al) k' = (if k' = k then v else get al k')"
  by (simp add: get_def update_conv')

lemma update_get: "map_of al k \<noteq> None \<Longrightarrow> AList.update k (get al k) al = al"
  by (auto simp: get_def intro: update_triv)

lemma is_number_present: "is_number (get al k) \<Longrightarrow> map_of al k \<noteq> None"
  by (auto simp: get_def split: option.splits)

lemma coerce_ok:
  assumes "Number P (get al k) = Inr n"
  shows "coerce P al k = Inr (AList.update k n al)"
proof (cases "is_number (get al k)")
  case True
  with assms have "n = get al k"
    by (simp add: Number_idem)
  with True show ?thesis
    by (simp add: coerce_def update_get is_number_present)
next
  case False
  with assms show ?thesis
    by (simp add: coerce_def)
qed

lemma coerce_throws:
  assumes "Number P (get al k) = Inl e"
  shows "coerce P al k = Inl e"
proof -
  from assms have "\<not> is_number (get al k)"
    by (auto simp: Number_idem)
  with assms show ?thesis
    by (simp add: coerce_def)
qed

lemma read_throws_page:
  "Number P (get data ''page'') = Inl e \<Longrightarrow> read P db data = (data, Rejected e)"
  by (simp add: read_def coerce_throws)

lemma read_throws_size:
  assumes "Number P (get data ''page'') = Inr pg" and "Number P (get data ''size'') = Inl e"
  shows "read P db data = (AList.update ''page'' pg data, Rejected e)"
proof -
  have "coerce P (AList.update ''page'' pg data) ''size'' = Inl e"
    by (rule coerce_throws) (simp add: get_update assms(2))
  then show ?thesis
    by (simp add: read_def coerce_ok [OF assms(1)])
qed

lemma read_result:
  assumes "Number P (get data ''page'') = Inr pg" and "Number P (get data ''size'') = Inr sz"
    and "rows = filter (matches (AList.delete ''size'' (AList.delete ''page'' data))) (docs db)"
  shows "read P db data =
     (AList.update ''size'' sz (AList.update ''page'' pg data),
      case fault db of
        Some e \<Rightarrow> Rejected e
      | None \<Rightarrow>
          if exceeds pg (- 1) \<and> exceeds sz 0
          then (case skip P (multiply P pg sz) rows of
                  Inl e \<Rightarrow> Rejected e
                | Inr rest \<Rightarrow>
                    (case limit P sz rest of
                       Inl e \<Rightarrow> Rejected e
                     | Inr shown \<Rightarrow>
                         Resolved (JObj [(''page'', JArr (map JObj shown)),
                                         (''length'', JNum (of_nat (length rows)))])))
          else Resolved (JArr (map JObj rows)))"
proof -
  have c2: "coerce P (AList.update ''page'' pg data) ''size''
            = Inr (AList.update ''size'' sz (AList.update ''page'' pg data))"
    by (rule coerce_ok) (simp add: get_update assms(2))
  have q: "AList.delete ''size'' (AList.delete ''page''
             (AList.update ''size'' sz (AList.update ''page'' pg data)))
           = AList.delete ''size'' (AList.delete ''page'' data)"
    by (simp add: delete_update delete_update_same)
  show ?thesis
    unfolding read_def coerce_ok [OF assms(1)] sum.case c2 Let_def q
    by (simp add: get_update find_docs_def countDocuments_def assms(3)
          split: option.splits sum.splits)
qed

lemma count_of_whole: "0 \<le> k \<Longrightarrow> k < 2 ^ 31 \<Longrightarrow> count_of (JNum (of_int k)) = Some (nat k)"
proof -
  assume "0 \<le> k" and "k < 2 ^ 31"
  then have "(of_int k :: rat) < of_int (2 ^ 31)"
    by (simp only: of_int_less_iff)
  with \<open>0 \<le> k\<close> show ?thesis by simp
qed

lemma skip_whole: "0 \<le> k \<Longrightarrow> k < 2 ^ 31 \<Longrightarrow> skip P (JNum (of_int k)) rows = Inr (drop (nat k) rows)"
  by (simp add: skip_def count_of_whole del: count_of.simps)

lemma limit_whole: "0 < k \<Longrightarrow> k < 2 ^ 31 \<Longrightarrow> limit P (JNum (of_int k)) rows = Inr (take (nat k) rows)"
proof -
  assume k: "0 < k" "k < 2 ^ 31"
  then obtain m where m: "nat k = Suc m"
    by (cases "nat k") auto
  with k show ?thesis
    by (simp add: limit_def count_of_whole del: count_of.simps)
qed

lemma multiply_whole:
  assumes "0 \<le> p * s" and "p * s < 2 ^ 31"
  shows "multiply P (JNum (of_int p)) (JNum (of_int s)) = JNum (of_int (p * s))"
proof -
  from assms have "\<bar>p * s\<bar> < 2 ^ 53"
    by simp
  then have "\<bar>(of_int (p * s) :: rat)\<bar> < of_int (2 ^ 53)"
    by (simp only: of_int_abs [symmetric] of_int_less_iff)
  then have "\<bar>(of_int p :: rat) * of_int s\<bar> < 2 ^ 53"
    by simp
  then show ?thesis
    by (simp add: multiply_def whole_def)
qed

lemma fire_Saved:
  "fire (Saved v) c =
     c\<lparr>cache_data := (cache_data c)(doc_id v \<mapsto> v), cache_count := cache_count c + 1\<rparr>"
  by (simp add: post_save_def)

lemma fire_Updated_Doc:
  "fire (Updated (Doc v)) c = c\<lparr>cache_data := (cache_data c)(doc_id v \<mapsto> v)\<rparr>"
  by (simp add: post_update_def)

lemma fire_Updated_Plain: "fire (Updated (Plain w)) c = c"
  by (simp add: post_update_def)

lemma fire_Removed:
  "fire (Removed v) c = c\<lparr>cache_data := (cache_data c)(doc_id v := None)\<rparr>"
  by (simp add: post_remove_def)

lemma run_append: "run (xs @ ys) c = run ys (run xs c)"
  by (induction xs arbitrary: c) simp_all

lemma replacing_append:
  "replacing (xs @ ys) c = (replacing xs c \<and> replacing ys (run xs c))"
  by (induction xs c rule: replacing.induct) simp_all

lemma card_insert_le_Suc: "finite A \<Longrightarrow> card (insert x A) \<le> Suc (card A)"
  by (simp add: card_insert_if)

lemma sound_Saved: "sound c \<Longrightarrow> sound (fire (Saved v) c)"
  unfolding sound_def fire_Saved entries_def
  using card_insert_le_Suc [of "dom (cache_data c)" "doc_id v"] by auto

lemma sound_Removed: "sound c \<Longrightarrow> sound (fire (Removed v) c)"
  unfolding sound_def fire_Removed entries_def
  using card_Diff1_le [of "dom (cache_data c)" "doc_id v"] by auto

lemma sound_Updated_Doc:
  "sound c \<Longrightarrow> cache_data c (doc_id v) \<noteq> None \<Longrightarrow> sound (fire (Updated (Doc v)) c)"
  unfolding sound_def fire_Updated_Doc entries_def
  by (auto simp: insert_absorb domI)

lemma replacing_tail: "replacing (e # es) c \<Longrightarrow> replacing es (fire e c)"
proof (cases e)
  case (Updated handed)
  assume "replacing (e # es) c"
  with Updated show ?thesis by (cases handed) (simp_all del: fire.simps)
qed (simp_all del: fire.simps)

lemma sound_fire: "replacing (e # es) c \<Longrightarrow> sound c \<Longrightarrow> sound (fire e c)"
proof (cases e)
  case (Saved v)
  assume "sound c"
  with Saved show ?thesis by (simp del: fire.simps add: sound_Saved)
next
  case (Updated handed)
  assume "replacing (e # es) c" and "sound c"
  with Updated show ?thesis
    by (cases handed) (simp_all del: fire.simps add: sound_Updated_Doc fire_Updated_Plain)
next
  case (Removed v)
  assume "sound c"
  with Removed show ?thesis by (simp del: fire.simps add: sound_Removed)
qed

lemma sound_run: "replacing es c \<Longrightarrow> sound c \<Longrightarrow> sound (run es c)"
proof (induction es arbitrary: c)
  case Nil
  then show ?case by simp
next
  case (Cons e es)
  from Cons.prems have "replacing es (fire e c)" and "sound (fire e c)"
    by (auto intro: replacing_tail sound_fire)
  then have "sound (run es (fire e c))"
    by (rule Cons.IH)
  then show ?case by simp
qed

lemma kept_Saved: "kept k c \<Longrightarrow> kept k (fire (Saved v) c)"
  unfolding kept_def fire_Saved entries_def
  using card_insert_le_Suc [of "dom (cache_data c)" "doc_id v"] by auto

lemma kept_Updated_Doc:
  "kept k c \<Longrightarrow> cache_data c (doc_id v) \<noteq> None \<Longrightarrow> kept k (fire (Updated (Doc v)) c)"
  unfolding kept_def fire_Updated_Doc entries_def
  by (auto simp: insert_absorb domI)

lemma kept_Removed: "kept k c \<Longrightarrow> kept k (fire (Removed v) c)"
proof (cases "doc_id v \<in> dom (cache_data c)")
  case True
  assume k: "kept k c"
  then have "finite (dom (cache_data c))"
    by (simp add: kept_def)
  then have "card (dom (cache_data c) - {doc_id v}) < card (dom (cache_data c))"
    using True by (rule card_Diff1_less)
  with k show ?thesis
    unfolding kept_def fire_Removed entries_def by auto
next
  case False
  assume k: "kept k c"
  from False have "dom (cache_data c) - {doc_id v} = dom (cache_data c)"
    by auto
  with k False show ?thesis
    unfolding kept_def fire_Removed entries_def by auto
qed

lemma kept_fire: "replacing (e # es) c \<Longrightarrow> kept k c \<Longrightarrow> kept k (fire e c)"
proof (cases e)
  case (Saved v)
  assume "kept k c"
  with Saved show ?thesis by (simp del: fire.simps add: kept_Saved)
next
  case (Updated handed)
  assume "replacing (e # es) c" and "kept k c"
  with Updated show ?thesis
    by (cases handed) (simp_all del: fire.simps add: kept_Updated_Doc fire_Updated_Plain)
next
  case (Removed v)
  assume "kept k c"
  with Removed show ?thesis by (simp del: fire.simps add: kept_Removed)
qed

lemma kept_run: "replacing es c \<Longrightarrow> kept k c \<Longrightarrow> kept k (run es c)"
proof (induction es arbitrary: c)
  case Nil
  then show ?case by simp
next
  case (Cons e es)
  from Cons.prems have "replacing es (fire e c)" and "kept k (fire e c)"
    by (auto intro: replacing_tail kept_fire)
  then have "kept k (run es (fire e c))"
    by (rule Cons.IH)
  then show ?case by simp
qed

lemma kept_after_save: "sound c \<Longrightarrow> kept (doc_id v) (fire (Saved v) c)"
  unfolding kept_def sound_def fire_Saved entries_def
  using card_insert_le_Suc [of "dom (cache_data c)" "doc_id v"] by auto

lemma ahead_after_remove:
  assumes "kept (doc_id v) c"
  shows "entries (fire (Removed v) c) < cache_count (fire (Removed v) c)"
proof (cases "doc_id v \<in> dom (cache_data c)")
  case True
  from assms have "finite (dom (cache_data c))"
    by (simp add: kept_def)
  then have "card (dom (cache_data c) - {doc_id v}) < card (dom (cache_data c))"
    using True by (rule card_Diff1_less)
  with assms show ?thesis
    unfolding kept_def fire_Removed entries_def by auto
next
  case False
  then have "dom (cache_data c) - {doc_id v} = dom (cache_data c)"
    by auto
  with assms False show ?thesis
    unfolding kept_def fire_Removed entries_def by auto
qed

lemma sound_fresh: "sound fresh_cache"
  by (simp add: sound_def fresh_cache_def entries_def)

lemma kinds_entry:
  assumes "r \<in> set (entry_routes F context name key svc)"
  shows "route_handler r = authenticate_handler context
     \<or> (\<exists>callback. route_handler r = hooker_handler F svc callback Before)
     \<or> (\<exists>callback hs. hooks_after svc = Some hs \<and> callback \<in> set hs
           \<and> route_handler r = hooker_handler F svc callback After)
     \<or> (\<exists>callback. route_handler r = callback_handler F svc callback)"
proof -
  from assms consider
      "r \<in> set (authenticate context name svc key)"
    | "r \<in> set (map (\<lambda>callback. hooker F name key svc callback Before)
                  (case hooks_before svc of None \<Rightarrow> [] | Some bs \<Rightarrow> bs))"
    | "r \<in> set (case sub_callback svc of
                  None \<Rightarrow> []
                | Some callback \<Rightarrow>
                    [Route (sub_method svc) (route_path name key)
                       (callback_handler F svc callback)])"
    | "r \<in> set (map (\<lambda>callback. hooker F name key svc callback After)
                  (case hooks_after svc of None \<Rightarrow> [] | Some as \<Rightarrow> as))"
    unfolding entry_routes_def set_append Un_iff by blast
  then show ?thesis
  proof cases
    case 1
    then show ?thesis by (auto simp: authenticate_def split: if_splits)
  next
    case 2
    then show ?thesis by (auto simp: hooker_def)
  next
    case 3
    then show ?thesis by (auto split: option.splits)
  next
    case 4
    show ?thesis
    proof (cases "hooks_after svc")
      case None
      with 4 show ?thesis by simp
    next
      case (Some hs)
      with 4 obtain callback where "callback \<in> set hs"
        and "r = hooker F name key svc callback After"
        by auto
      with Some show ?thesis by (auto simp: hooker_def)
    qed
  qed
qed

lemma kinds_addservices:
  "r \<in> set (addservices F context name services) \<Longrightarrow>
     route_handler r = authenticate_handler context
     \<or> (\<exists>svc callback. route_handler r = hooker_handler F svc callback Before)
     \<or> (\<exists>svc callback hs. hooks_after svc = Some hs \<and> callback \<in> set hs
           \<and> route_handler r = hooker_handler F svc callback After)
     \<or> (\<exists>svc callback. route_handler r = callback_handler F svc callback)"
proof -
  assume "r \<in> set (addservices F context name services)"
  then obtain key svc where "r \<in> set (entry_routes F context name key svc)"
    by (auto simp: addservices_def)
  from kinds_entry [OF this] show ?thesis by blast
qed

lemma kinds_Service_hooker:
  "r \<in> set (Service_hooker F name table) \<Longrightarrow>
     \<exists>callback. route_handler r = service_hook_handler F callback"
  by (auto simp: Service_hooker_def split: option.splits)

lemma kinds_crud:
  "r \<in> set (crud P name) \<Longrightarrow>
     route_handler r = post_handler name \<or> route_handler r = get_handler P name
     \<or> route_handler r = put_handler name \<or> route_handler r = delete_handler name"
  by (auto simp: crud_def)

lemma kinds_Service:
  "r \<in> set (Service F P name store_name service_hooks) \<Longrightarrow>
     (\<exists>callback. route_handler r = service_hook_handler F callback)
     \<or> route_handler r = post_handler name \<or> route_handler r = get_handler P name
     \<or> route_handler r = put_handler name \<or> route_handler r = delete_handler name"
  unfolding Service_def set_append Un_iff
  by (elim disjE) (auto dest: kinds_Service_hooker kinds_crud split: option.splits if_splits)

lemma matches_credentials:
  "matches [(''username'', u), (''password'', p)] r =
     (map_of r ''username'' = Some u \<and> map_of r ''password'' = Some p)"
  by (simp add: matches_def)

lemma authorize_resolved:
  assumes "authorize users data = Resolved v"
  shows "\<exists>r \<in> set (docs users). v = JObj r
           \<and> matches [(''username'', get data ''username''),
                       (''password'', get data ''password'')] r"
proof -
  from assms obtain r where f: "List.find (matches [(''username'', get data ''username''),
                       (''password'', get data ''password'')]) (docs users) = Some r"
      and v: "v = JObj r"
    by (auto simp: authorize_def findOne_def split: if_splits option.splits)
  from f have "r \<in> set (docs users)"
    and "matches [(''username'', get data ''username''),
                  (''password'', get data ''password'')] r"
    by (auto simp: find_Some_iff)
  with v show ?thesis by blast
qed

text \<open>
  With an after list of distinct hooks the handler of an entry responds exactly
  when the entry is the last one.
\<close>

lemma indexOf_from_nth:
  "distinct xs \<Longrightarrow> i < length xs \<Longrightarrow> indexOf_from k xs (xs ! i) = k + int i"
proof (induction xs arbitrary: i k)
  case Nil
  then show ?case by simp
next
  case (Cons x xs)
  show ?case
  proof (cases i)
    case 0
    then show ?thesis by simp
  next
    case (Suc j)
    with Cons.prems have "xs ! j \<noteq> x" "j < length xs" "distinct xs"
      by auto
    with Cons.IH [of j "k + 1"] Suc show ?thesis by simp
  qed
qed

lemma distinct_after_hook_action:
  assumes "hooks_after svc = Some hs" and "distinct hs" and "i < length hs"
    and "F (hs ! i) (spread (body request) (query request)) = Resolved result"
  shows "act (hooker_handler F svc (hs ! i) After request db) =
           (if Suc i = length hs
            then Respond \<lparr>status = 200,
                          sent = \<lparr>message = sub_message svc, payload = result,
                                  debug = None\<rparr>\<rparr>
            else Next result)"
proof -
  have "indexOf hs (hs ! i) = int i"
    using assms(2,3) by (simp add: indexOf_def indexOf_from_nth)
  moreover have "(int i = int (length hs) - 1) = (Suc i = length hs)"
    by auto
  ultimately show ?thesis
    using assms(1,4) by (simp add: hooker_handler_def Let_def settle_def exit_def)
qed

section \<open>Properties of the fallback middleware\<close>

text \<open>
  C8. A request that no registered route matches reaches the 404 responder, which
  answers with status 404 and an envelope holding the request body as payload and
  the same fixed not-found text as message and as debug.
\<close>

theorem unmatched_request_not_found:
  assumes "\<forall>r \<in> set table. \<not> route_matches r request"
  shows "dispatch continues (table @ [Use (not_found c)]) request db =
           [\<lparr>calls = [],
             act = Respond \<lparr>status = 404,
                            sent = \<lparr>message = Some (not_found_error c),
                                    payload = JObj (body request),
                                    debug = Some (not_found_error c)\<rparr>\<rparr>,
             store = db\<rparr>]"
proof -
  have "filter (\<lambda>r. route_matches r request) table = []"
    using assms by (simp add: filter_empty_conv)
  then show ?thesis
    by (simp add: dispatch_def not_found_def)
qed

theorem unmatched_request_not_found_witness:
  "list_all (\<lambda>r. \<not> route_matches r \<lparr>req_method = ''get'', req_path = ''/nowhere'',
                                       body = [(''a'', JNum 1)], query = []\<rparr>)
     (crud
          \<lparr>string_to_number = (\<lambda>s. JNaN), to_number = (\<lambda>v. Inr JNaN),
            product = (\<lambda>a b. JNaN),
            skip_other = (\<lambda>n rows. Inr rows), limit_other = (\<lambda>n rows. Inr rows)\<rparr>
          ''user'')
   \<and> map act (dispatch (\<lambda>v. True)
        (crud
          \<lparr>string_to_number = (\<lambda>s. JNaN), to_number = (\<lambda>v. Inr JNaN),
            product = (\<lambda>a b. JNaN),
            skip_other = (\<lambda>n rows. Inr rows), limit_other = (\<lambda>n rows. Inr rows)\<rparr>
          ''user'' @ [Use (not_found \<lparr>not_found_error = ''Not found'',
                                           too_large_error = ''Too large''\<rparr>)])
        \<lparr>req_method = ''get'', req_path = ''/nowhere'', body = [(''a'', JNum 1)], query = []\<rparr>
        \<lparr>docs = [], fault = None, next_id = 0\<rparr>)
     = [Respond \<lparr>status = 404,
                 sent = \<lparr>message = Some ''Not found'',
                         payload = JObj [(''a'', JNum 1)],
                         debug = Some ''Not found''\<rparr>\<rparr>]"
proof -
  have h: "\<forall>r \<in> set (crud
          \<lparr>string_to_number = (\<lambda>s. JNaN), to_number = (\<lambda>v. Inr JNaN),
            product = (\<lambda>a b. JNaN),
            skip_other = (\<lambda>n rows. Inr rows), limit_other = (\<lambda>n rows. Inr rows)\<rparr>
          ''user'').
      \<not> route_matches r \<lparr>req_method = ''get'', req_path = ''/nowhere'',
                          body = [(''a'', JNum 1)], query = []\<rparr>"
    by (simp add: crud_def)
  show ?thesis
    using unmatched_request_not_found [OF h, of "\<lambda>v. True"
        "\<lparr>not_found_error = ''Not found'', too_large_error = ''Too large''\<rparr>"
        "\<lparr>docs = [], fault = None, next_id = 0\<rparr>"]
    by (simp add: crud_def)
qed

text \<open>
  C7. An error of kind \<open>entity.too.large\<close> reaching the error-handling stage is
  answered with status 413, the fixed too-large text, the request body as payload
  and the error's message as debug, whatever the method and path of the request.
  An error of any other kind is thrown again as it is.
\<close>

theorem too_large_fallback:
  "(err_type error = ''entity.too.large'' \<longrightarrow>
      too_large c error request =
        Inr \<lparr>status = 413,
             sent = \<lparr>message = Some (too_large_error c),
                     payload = JObj (body request),
                     debug = Some (err_message error)\<rparr>\<rparr>)
   \<and> (err_type error \<noteq> ''entity.too.large'' \<longrightarrow> too_large c error request = Inl error)"
  by (simp add: too_large_def)

theorem too_large_fallback_witness:
  "too_large \<lparr>not_found_error = ''Not found'', too_large_error = ''Too large''\<rparr>
     \<lparr>err_type = ''entity.too.large'', err_message = ''request entity too large''\<rparr>
     \<lparr>req_method = ''post'', req_path = ''/user'', body = [], query = []\<rparr>
   = Inr \<lparr>status = 413,
          sent = \<lparr>message = Some ''Too large'', payload = JObj [],
                  debug = Some ''request entity too large''\<rparr>\<rparr>
   \<and> too_large \<lparr>not_found_error = ''Not found'', too_large_error = ''Too large''\<rparr>
       \<lparr>err_type = ''entity.parse.failed'', err_message = ''bad json''\<rparr>
       \<lparr>req_method = ''post'', req_path = ''/user'', body = [], query = []\<rparr>
     = Inl \<lparr>err_type = ''entity.parse.failed'', err_message = ''bad json''\<rparr>"
  using too_large_fallback [of "\<lparr>err_type = ''entity.too.large'',
                                  err_message = ''request entity too large''\<rparr>"
          "\<lparr>not_found_error = ''Not found'', too_large_error = ''Too large''\<rparr>"
          "\<lparr>req_method = ''post'', req_path = ''/user'', body = [], query = []\<rparr>"]
        too_large_fallback [of "\<lparr>err_type = ''entity.parse.failed'', err_message = ''bad json''\<rparr>"
          "\<lparr>not_found_error = ''Not found'', too_large_error = ''Too large''\<rparr>"
          "\<lparr>req_method = ''post'', req_path = ''/user'', body = [], query = []\<rparr>"]
  by simp

section \<open>Properties of the request data\<close>

text \<open>
  C9. Every handler a Service registers is of one of nine kinds: a service-wide
  hook, one of the four CRUD handlers, the authentication gate, a before-hook, an
  after-hook or the callback of a sub-route.  Each of them builds the record
  \<open>{...request.body, ...request.query}\<close> from the request, hands that record to its
  collaborator (the hook or callback, the context's \<open>authenticate\<close>, or the CRUD
  method) and acts on what comes back, as the equations say.  Every step of a chain
  is a registered handler applied to the request itself, so the input of a handler
  is that record and never what an earlier hook returned.  A field of the query
  string overrides the field of the same name in the body.
\<close>

theorem data_rebuilt_from_request:
  assumes "d = spread (body request) (query request)"
  shows "authenticate_handler context request db =
       \<lparr>calls = [(ContextAuthenticate, d)],
        act = (case ctx_authenticate context d of
                 Thrown e \<Rightarrow> Throw e
               | Rejected e \<Rightarrow>
                   Respond \<lparr>status = 412, sent = \<lparr>message = Some ''Oops, authentication error occurred!'', payload = JObj d, debug = Some (msg e)\<rparr>\<rparr>
               | Resolved v \<Rightarrow>
                   if truthy v then Next JUndefined
                   else Respond \<lparr>status = 412, sent = \<lparr>message = Some ''Oops, authentication error occurred!'', payload = JObj d, debug = Some ''Oops, authentication error occurred!''\<rparr>\<rparr>),
        store = db\<rparr>
    \<and> hooker_handler F svc callback Before request db =
       \<lparr>calls = [(Fn callback, d)],
        act = (case F callback d of
                 Thrown e \<Rightarrow> Throw e
               | Rejected e \<Rightarrow>
                   Respond \<lparr>status = 422, sent = \<lparr>message = sub_error svc, payload = JObj d, debug = Some (msg e)\<rparr>\<rparr>
               | Resolved result \<Rightarrow> Next result),
        store = db\<rparr>
    \<and> (hooks_after svc = Some hs \<longrightarrow>
      hooker_handler F svc callback After request db =
       \<lparr>calls = [(Fn callback, d)],
        act = (case F callback d of
                 Thrown e \<Rightarrow> Throw e
               | Rejected e \<Rightarrow>
                   Respond \<lparr>status = 422, sent = \<lparr>message = sub_error svc, payload = JObj d, debug = Some (msg e)\<rparr>\<rparr>
               | Resolved result \<Rightarrow>
                   if indexOf hs callback = int (length hs) - 1
                   then Respond \<lparr>status = 200, sent = \<lparr>message = sub_message svc, payload = result, debug = None\<rparr>\<rparr>
                   else Next result),
        store = db\<rparr>)
    \<and> callback_handler F svc callback request db =
       \<lparr>calls = [(Fn callback, d)],
        act = (case F callback d of
                 Thrown e \<Rightarrow> Throw e
               | Rejected e \<Rightarrow>
                   Respond \<lparr>status = 422, sent = \<lparr>message = sub_error svc, payload = JObj d, debug = Some (msg e)\<rparr>\<rparr>
               | Resolved result \<Rightarrow>
                   if hooks_after svc = None
                   then Respond \<lparr>status = 200, sent = \<lparr>message = sub_message svc, payload = result, debug = None\<rparr>\<rparr>
                   else Next result),
        store = db\<rparr>
    \<and> service_hook_handler F callback request db =
       \<lparr>calls = [(Fn callback, d)],
        act = (case F callback d of
                 Thrown e \<Rightarrow> Throw e
               | Rejected e \<Rightarrow>
                   Respond \<lparr>status = 422, sent = \<lparr>message = Some ''Oops, a service error occurred!'', payload = JObj d, debug = Some (msg e)\<rparr>\<rparr>
               | Resolved result \<Rightarrow>
                   Respond \<lparr>status = 201, sent = \<lparr>message = None, payload = JObj d, debug = None\<rparr>\<rparr>),
        store = db\<rparr>
    \<and> post_handler name request db =
       \<lparr>calls = [(Create, d)],
        act = (case snd (create db d) of
                 Thrown e \<Rightarrow> Throw e
               | Rejected e \<Rightarrow>
                   Respond \<lparr>status = 422, sent = \<lparr>message = Some (''Oops, could not create '' @ name @ ''!''), payload = JObj d, debug = Some (msg e)\<rparr>\<rparr>
               | Resolved v \<Rightarrow>
                   Respond \<lparr>status = 201, sent = \<lparr>message = Some (''Hi, an '' @ name @ '' has been created!''), payload = v, debug = None\<rparr>\<rparr>),
        store = fst (create db d)\<rparr>
    \<and> get_handler P name request db =
       \<lparr>calls = [(Read, d)],
        act = (case snd (read P db d) of
                 Thrown e \<Rightarrow> Throw e
               | Rejected e \<Rightarrow>
                   Respond \<lparr>status = 404, sent = \<lparr>message = Some (''Oops, could not find '' @ name @ '' list!''), payload = JObj (fst (read P db d)), debug = Some (msg e)\<rparr>\<rparr>
               | Resolved v \<Rightarrow>
                   Respond \<lparr>status = 200, sent = \<lparr>message = Some ''Hi, a data payload is provided!'', payload = v, debug = None\<rparr>\<rparr>),
        store = db\<rparr>
    \<and> put_handler name request db =
       \<lparr>calls = [(Update, d)],
        act = (case snd (update name db d) of
                 Thrown e \<Rightarrow> Throw e
               | Rejected e \<Rightarrow>
                   Respond \<lparr>status = 413, sent = \<lparr>message = Some (''Oops, could not update '' @ name @ ''!''), payload = JObj d, debug = Some (msg e)\<rparr>\<rparr>
               | Resolved v \<Rightarrow>
                   Respond \<lparr>status = 200, sent = \<lparr>message = Some (''Hi, an '' @ name @ '' has been updated!''), payload = v, debug = None\<rparr>\<rparr>),
        store = fst (update name db d)\<rparr>
    \<and> delete_handler name request db =
       \<lparr>calls = [(Delete, d)],
        act = (case snd (delete name db d) of
                 Thrown e \<Rightarrow> Throw e
               | Rejected e \<Rightarrow>
                   Respond \<lparr>status = 422, sent = \<lparr>message = Some (''Oops, could not remove '' @ name @ ''!''), payload = JObj d, debug = Some (msg e)\<rparr>\<rparr>
               | Resolved v \<Rightarrow>
                   Respond \<lparr>status = 200, sent = \<lparr>message = Some (''Hi, an '' @ name @ '' has been removed!''), payload = v, debug = None\<rparr>\<rparr>),
        store = fst (delete name db d)\<rparr>
    \<and> (\<forall>r \<in> set (Service F P name store_name service_hooks @ addservices F context name services).
        (\<exists>callback. route_handler r = service_hook_handler F callback)
        \<or> route_handler r = post_handler name
        \<or> route_handler r = get_handler P name
        \<or> route_handler r = put_handler name
        \<or> route_handler r = delete_handler name
        \<or> route_handler r = authenticate_handler context
        \<or> (\<exists>svc callback. route_handler r = hooker_handler F svc callback Before)
        \<or> (\<exists>svc callback hs. hooks_after svc = Some hs \<and> callback \<in> set hs
              \<and> route_handler r = hooker_handler F svc callback After)
        \<or> (\<exists>svc callback. route_handler r = callback_handler F svc callback))
    \<and> (\<forall>s \<in> set (dispatch continues (Service F P name store_name service_hooks @ addservices F context name services) request db).
        (\<exists>r \<in> set (Service F P name store_name service_hooks @ addservices F context name services).
           \<exists>db'. s = route_handler r request db')
        \<and> (\<forall>c \<in> set (calls s). snd c = d))
    \<and> (distinct (map fst (query request)) \<and> (k, v) \<in> set (query request) \<longrightarrow> get d k = v)"
proof -
  have gate: "authenticate_handler context request db =
       \<lparr>calls = [(ContextAuthenticate, d)],
        act = (case ctx_authenticate context d of
                 Thrown e \<Rightarrow> Throw e
               | Rejected e \<Rightarrow>
                   Respond \<lparr>status = 412, sent = \<lparr>message = Some ''Oops, authentication error occurred!'', payload = JObj d, debug = Some (msg e)\<rparr>\<rparr>
               | Resolved v \<Rightarrow>
                   if truthy v then Next JUndefined
                   else Respond \<lparr>status = 412, sent = \<lparr>message = Some ''Oops, authentication error occurred!'', payload = JObj d, debug = Some ''Oops, authentication error occurred!''\<rparr>\<rparr>),
        store = db\<rparr>"
    by (simp add: authenticate_handler_def Let_def settle_def exit_def assms split: outcome.splits)
  have before: "hooker_handler F svc callback Before request db =
       \<lparr>calls = [(Fn callback, d)],
        act = (case F callback d of
                 Thrown e \<Rightarrow> Throw e
               | Rejected e \<Rightarrow>
                   Respond \<lparr>status = 422, sent = \<lparr>message = sub_error svc, payload = JObj d, debug = Some (msg e)\<rparr>\<rparr>
               | Resolved result \<Rightarrow> Next result),
        store = db\<rparr>"
    by (simp add: hooker_handler_def Let_def settle_def exit_def assms split: outcome.splits)
  have after: "(hooks_after svc = Some hs \<longrightarrow>
      hooker_handler F svc callback After request db =
       \<lparr>calls = [(Fn callback, d)],
        act = (case F callback d of
                 Thrown e \<Rightarrow> Throw e
               | Rejected e \<Rightarrow>
                   Respond \<lparr>status = 422, sent = \<lparr>message = sub_error svc, payload = JObj d, debug = Some (msg e)\<rparr>\<rparr>
               | Resolved result \<Rightarrow>
                   if indexOf hs callback = int (length hs) - 1
                   then Respond \<lparr>status = 200, sent = \<lparr>message = sub_message svc, payload = result, debug = None\<rparr>\<rparr>
                   else Next result),
        store = db\<rparr>)"
    by (simp add: hooker_handler_def Let_def settle_def exit_def assms split: outcome.splits)
  have callback: "callback_handler F svc callback request db =
       \<lparr>calls = [(Fn callback, d)],
        act = (case F callback d of
                 Thrown e \<Rightarrow> Throw e
               | Rejected e \<Rightarrow>
                   Respond \<lparr>status = 422, sent = \<lparr>message = sub_error svc, payload = JObj d, debug = Some (msg e)\<rparr>\<rparr>
               | Resolved result \<Rightarrow>
                   if hooks_after svc = None
                   then Respond \<lparr>status = 200, sent = \<lparr>message = sub_message svc, payload = result, debug = None\<rparr>\<rparr>
                   else Next result),
        store = db\<rparr>"
    by (auto simp: callback_handler_def Let_def settle_def exit_def assms split: outcome.splits)
  have svc: "service_hook_handler F callback request db =
       \<lparr>calls = [(Fn callback, d)],
        act = (case F callback d of
                 Thrown e \<Rightarrow> Throw e
               | Rejected e \<Rightarrow>
                   Respond \<lparr>status = 422, sent = \<lparr>message = Some ''Oops, a service error occurred!'', payload = JObj d, debug = Some (msg e)\<rparr>\<rparr>
               | Resolved result \<Rightarrow>
                   Respond \<lparr>status = 201, sent = \<lparr>message = None, payload = JObj d, debug = None\<rparr>\<rparr>),
        store = db\<rparr>"
    by (simp add: service_hook_handler_def Let_def settle_def exit_def assms split: outcome.splits)
  have post: "post_handler name request db =
       \<lparr>calls = [(Create, d)],
        act = (case snd (create db d) of
                 Thrown e \<Rightarrow> Throw e
               | Rejected e \<Rightarrow>
                   Respond \<lparr>status = 422, sent = \<lparr>message = Some (''Oops, could not create '' @ name @ ''!''), payload = JObj d, debug = Some (msg e)\<rparr>\<rparr>
               | Resolved v \<Rightarrow>
                   Respond \<lparr>status = 201, sent = \<lparr>message = Some (''Hi, an '' @ name @ '' has been created!''), payload = v, debug = None\<rparr>\<rparr>),
        store = fst (create db d)\<rparr>"
    by (simp add: post_handler_def Let_def settle_def exit_def assms split: outcome.splits)
  have get: "get_handler P name request db =
       \<lparr>calls = [(Read, d)],
        act = (case snd (read P db d) of
                 Thrown e \<Rightarrow> Throw e
               | Rejected e \<Rightarrow>
                   Respond \<lparr>status = 404, sent = \<lparr>message = Some (''Oops, could not find '' @ name @ '' list!''), payload = JObj (fst (read P db d)), debug = Some (msg e)\<rparr>\<rparr>
               | Resolved v \<Rightarrow>
                   Respond \<lparr>status = 200, sent = \<lparr>message = Some ''Hi, a data payload is provided!'', payload = v, debug = None\<rparr>\<rparr>),
        store = db\<rparr>"
    by (simp add: get_handler_def Let_def settle_def exit_def assms split: outcome.splits)
  have put: "put_handler name request db =
       \<lparr>calls = [(Update, d)],
        act = (case snd (update name db d) of
                 Thrown e \<Rightarrow> Throw e
               | Rejected e \<Rightarrow>
                   Respond \<lparr>status = 413, sent = \<lparr>message = Some (''Oops, could not update '' @ name @ ''!''), payload = JObj d, debug = Some (msg e)\<rparr>\<rparr>
               | Resolved v \<Rightarrow>
                   Respond \<lparr>status = 200, sent = \<lparr>message = Some (''Hi, an '' @ name @ '' has been updated!''), payload = v, debug = None\<rparr>\<rparr>),
        store = fst (update name db d)\<rparr>"
    by (simp add: put_handler_def Let_def settle_def exit_def assms split: outcome.splits)
  have del: "delete_handler name request db =
       \<lparr>calls = [(Delete, d)],
        act = (case snd (delete name db d) of
                 Thrown e \<Rightarrow> Throw e
               | Rejected e \<Rightarrow>
                   Respond \<lparr>status = 422, sent = \<lparr>message = Some (''Oops, could not remove '' @ name @ ''!''), payload = JObj d, debug = Some (msg e)\<rparr>\<rparr>
               | Resolved v \<Rightarrow>
                   Respond \<lparr>status = 200, sent = \<lparr>message = Some (''Hi, an '' @ name @ '' has been removed!''), payload = v, debug = None\<rparr>\<rparr>),
        store = fst (delete name db d)\<rparr>"
    by (simp add: delete_handler_def Let_def settle_def exit_def assms split: outcome.splits)
  have kinds: "(\<forall>r \<in> set (Service F P name store_name service_hooks @ addservices F context name services).
        (\<exists>callback. route_handler r = service_hook_handler F callback)
        \<or> route_handler r = post_handler name
        \<or> route_handler r = get_handler P name
        \<or> route_handler r = put_handler name
        \<or> route_handler r = delete_handler name
        \<or> route_handler r = authenticate_handler context
        \<or> (\<exists>svc callback. route_handler r = hooker_handler F svc callback Before)
        \<or> (\<exists>svc callback hs. hooks_after svc = Some hs \<and> callback \<in> set hs
              \<and> route_handler r = hooker_handler F svc callback After)
        \<or> (\<exists>svc callback. route_handler r = callback_handler F svc callback))"
  proof
    fix r
    assume "r \<in> set (Service F P name store_name service_hooks @ addservices F context name services)"
    then consider "r \<in> set (Service F P name store_name service_hooks)"
      | "r \<in> set (addservices F context name services)"
      by auto
    then show "(\<exists>callback. route_handler r = service_hook_handler F callback)
        \<or> route_handler r = post_handler name
        \<or> route_handler r = get_handler P name
        \<or> route_handler r = put_handler name
        \<or> route_handler r = delete_handler name
        \<or> route_handler r = authenticate_handler context
        \<or> (\<exists>svc callback. route_handler r = hooker_handler F svc callback Before)
        \<or> (\<exists>svc callback hs. hooks_after svc = Some hs \<and> callback \<in> set hs
              \<and> route_handler r = hooker_handler F svc callback After)
        \<or> (\<exists>svc callback. route_handler r = callback_handler F svc callback)"
    proof cases
      case 1
      from kinds_Service [OF this] show ?thesis by blast
    next
      case 2
      from kinds_addservices [OF this] show ?thesis by blast
    qed
  qed
  have steps: "(\<forall>s \<in> set (dispatch continues (Service F P name store_name service_hooks @ addservices F context name services) request db).
        (\<exists>r \<in> set (Service F P name store_name service_hooks @ addservices F context name services).
           \<exists>db'. s = route_handler r request db')
        \<and> (\<forall>c \<in> set (calls s). snd c = d))"
  proof (intro ballI conjI)
    fix s
    assume s: "s \<in> set (dispatch continues (Service F P name store_name service_hooks @ addservices F context name services) request db)"
    from dispatch_steps [OF s]
    show "\<exists>r \<in> set (Service F P name store_name service_hooks @ addservices F context name services).
           \<exists>db'. s = route_handler r request db'" .
    then obtain r db' where r: "r \<in> set (Service F P name store_name service_hooks @ addservices F context name services)"
      and eq: "s = route_handler r request db'"
      by blast
    fix c
    assume "c \<in> set (calls s)"
    with r show "snd c = d"
      unfolding eq assms by (auto dest: calls_Service calls_addservices)
  qed
  have over: "(distinct (map fst (query request)) \<and> (k, v) \<in> set (query request) \<longrightarrow> get d k = v)"
    by (simp add: assms get_spread_query)
  from gate before after callback svc post get put del kinds steps over show ?thesis
    by (intro conjI)
qed

theorem data_rebuilt_from_request_witness:
  "map calls (dispatch (\<lambda>v. \<not> truthy v)
        (Service (\<lambda>f d. Resolved (JBool False))
           \<lparr>string_to_number = (\<lambda>s. JNaN), to_number = (\<lambda>v. Inr JNaN),
             product = (\<lambda>a b. JNaN),
            skip_other = (\<lambda>n rows. Inr rows), limit_other = (\<lambda>n rows. Inr rows)\<rparr>
           ''user'' (Some ''user'') None
          @ addservices (\<lambda>f d. Resolved (JBool False))
              \<lparr>ctx_authenticate = (\<lambda>d. Resolved (JBool True))\<rparr> ''user''
              [(''login'',
                \<lparr>sub_method = ''post'', sub_message = Some ''Welcome'',
                 sub_error = Some ''Denied'', sub_authenticate = True,
                 sub_hooks = Some \<lparr>before = Some [1], after = Some [3]\<rparr>,
                 sub_callback = Some 2\<rparr>)])
        \<lparr>req_method = ''post'', req_path = ''/user/login'',
          body = [(''a'', JNum 1), (''b'', JNum 2)], query = [(''b'', JStr ''3'')]\<rparr>
        \<lparr>docs = [], fault = None, next_id = 0\<rparr>) =
   [[(ContextAuthenticate, [(''a'', JNum 1), (''b'', JStr ''3'')])],
    [(Fn 1, [(''a'', JNum 1), (''b'', JStr ''3'')])],
    [(Fn 2, [(''a'', JNum 1), (''b'', JStr ''3'')])],
    [(Fn 3, [(''a'', JNum 1), (''b'', JStr ''3'')])]]
   \<and> map act (dispatch (\<lambda>v. \<not> truthy v)
        (Service (\<lambda>f d. Resolved (JBool False))
           \<lparr>string_to_number = (\<lambda>s. JNaN), to_number = (\<lambda>v. Inr JNaN),
             product = (\<lambda>a b. JNaN),
            skip_other = (\<lambda>n rows. Inr rows), limit_other = (\<lambda>n rows. Inr rows)\<rparr>
           ''user'' (Some ''user'') None
          @ addservices (\<lambda>f d. Resolved (JBool False))
              \<lparr>ctx_authenticate = (\<lambda>d. Resolved (JBool True))\<rparr> ''user''
              [(''login'',
                \<lparr>sub_method = ''post'', sub_message = Some ''Welcome'',
                 sub_error = Some ''Denied'', sub_authenticate = True,
                 sub_hooks = Some \<lparr>before = Some [1], after = Some [3]\<rparr>,
                 sub_callback = Some 2\<rparr>)])
        \<lparr>req_method = ''post'', req_path = ''/user/login'',
          body = [(''a'', JNum 1), (''b'', JNum 2)], query = [(''b'', JStr ''3'')]\<rparr>
        \<lparr>docs = [], fault = None, next_id = 0\<rparr>) =
   [Next JUndefined, Next (JBool False), Next (JBool False),
    Respond \<lparr>status = 200,
             sent = \<lparr>message = Some ''Welcome'', payload = JBool False, debug = None\<rparr>\<rparr>]
   \<and> get (spread [(''a'', JNum 1), (''b'', JNum 2)] [(''b'', JStr ''3'')]) ''b'' = JStr ''3''"
  using data_rebuilt_from_request [OF refl,
      where request = "\<lparr>req_method = ''post'', req_path = ''/user/login'',
          body = [(''a'', JNum 1), (''b'', JNum 2)], query = [(''b'', JStr ''3'')]\<rparr>"
        and db = "\<lparr>docs = [], fault = None, next_id = 0\<rparr>"
        and F = "(\<lambda>f d. Resolved (JBool False))"
        and svc = "\<lparr>sub_method = ''post'', sub_message = Some ''Welcome'',
                 sub_error = Some ''Denied'', sub_authenticate = True,
                 sub_hooks = Some \<lparr>before = Some [1], after = Some [3]\<rparr>,
                 sub_callback = Some 2\<rparr>"
        and callback = 1 and hs = "[3]" and name = "''user''"
        and P = "\<lparr>string_to_number = (\<lambda>s. JNaN), to_number = (\<lambda>v. Inr JNaN),
                   product = (\<lambda>a b. JNaN),
            skip_other = (\<lambda>n rows. Inr rows), limit_other = (\<lambda>n rows. Inr rows)\<rparr>"
        and store_name = "Some ''user''" and service_hooks = None
        and services = "[(''login'',
                \<lparr>sub_method = ''post'', sub_message = Some ''Welcome'',
                 sub_error = Some ''Denied'', sub_authenticate = True,
                 sub_hooks = Some \<lparr>before = Some [1], after = Some [3]\<rparr>,
                 sub_callback = Some 2\<rparr>)]"
        and continues = "\<lambda>v. \<not> truthy v" and k = "''b''" and v = "JStr ''3''",
      of "\<lparr>ctx_authenticate = (\<lambda>d. Resolved (JBool True))\<rparr>"]
  by (simp add: eval_defs get_def)

section \<open>Properties of the sub-route handlers\<close>

text \<open>
  C4. For a sub-route whose descriptor sets the authenticate flag, the
  authentication gate is the first handler registered for its method and path, ahead
  of every hook handler.  The gate calls the context's \<open>authenticate\<close> on the merged
  body and query record.  On a truthy result it calls \<open>next()\<close> with no payload.  When
  the result is falsy or the promise rejects it answers with status 412 and an error
  envelope, and a request to the sub-route ends there: the gate's is the only step
  of the chain, so no hook of the sub-route runs.
\<close>

theorem authentication_gate:
  assumes flag: "sub_authenticate svc"
  shows "entry_routes F context name key svc =
           Route (sub_method svc) (route_path name key) (authenticate_handler context)
             # entry_routes F context name key (svc\<lparr>sub_authenticate := False\<rparr>)
    \<and> calls (authenticate_handler context request db) =
           [(ContextAuthenticate, spread (body request) (query request))]
    \<and> (ctx_authenticate context (spread (body request) (query request)) = Resolved v
          \<and> truthy v
        \<longrightarrow> act (authenticate_handler context request db) = Next JUndefined)
    \<and> ((ctx_authenticate context (spread (body request) (query request)) = Rejected e
           \<and> d = msg e)
         \<or> (ctx_authenticate context (spread (body request) (query request)) = Resolved v
              \<and> \<not> truthy v \<and> d = ''Oops, authentication error occurred!'')
        \<longrightarrow>
           act (authenticate_handler context request db) =
             Respond \<lparr>status = 412,
                      sent = \<lparr>message = Some ''Oops, authentication error occurred!'',
                              payload = JObj (spread (body request) (query request)),
                              debug = Some d\<rparr>\<rparr>
           \<and> (req_method request = sub_method svc \<and> req_path request = route_path name key
                \<and> (\<forall>r \<in> set earlier. \<not> route_matches r request)
              \<longrightarrow> dispatch continues (earlier @ entry_routes F context name key svc @ later)
                    request db =
                  [\<lparr>calls = [(ContextAuthenticate, spread (body request) (query request))],
                    act = Respond \<lparr>status = 412,
                            sent = \<lparr>message = Some ''Oops, authentication error occurred!'',
                                    payload = JObj (spread (body request) (query request)),
                                    debug = Some d\<rparr>\<rparr>,
                    store = db\<rparr>]))"
proof (intro conjI impI)
  show "entry_routes F context name key svc =
           Route (sub_method svc) (route_path name key) (authenticate_handler context)
             # entry_routes F context name key (svc\<lparr>sub_authenticate := False\<rparr>)"
    using flag by (rule entry_routes_gate_first)
  show "calls (authenticate_handler context request db) =
           [(ContextAuthenticate, spread (body request) (query request))]"
    by (simp add: authenticate_handler_def Let_def)
next
  assume "ctx_authenticate context (spread (body request) (query request)) = Resolved v
          \<and> truthy v"
  then show "act (authenticate_handler context request db) = Next JUndefined"
    by (simp add: authenticate_handler_def Let_def settle_def)
next
  assume h: "(ctx_authenticate context (spread (body request) (query request)) = Rejected e
           \<and> d = msg e)
         \<or> (ctx_authenticate context (spread (body request) (query request)) = Resolved v
              \<and> \<not> truthy v \<and> d = ''Oops, authentication error occurred!'')"
  then show a: "act (authenticate_handler context request db) =
             Respond \<lparr>status = 412,
                      sent = \<lparr>message = Some ''Oops, authentication error occurred!'',
                              payload = JObj (spread (body request) (query request)),
                              debug = Some d\<rparr>\<rparr>"
    by (auto simp: authenticate_handler_def Let_def settle_def exit_def)
  assume m: "req_method request = sub_method svc \<and> req_path request = route_path name key
                \<and> (\<forall>r \<in> set earlier. \<not> route_matches r request)"
  then have none: "filter (\<lambda>r. route_matches r request) earlier = []"
    by (simp add: filter_empty_conv)
  have step: "authenticate_handler context request db =
      \<lparr>calls = [(ContextAuthenticate, spread (body request) (query request))],
       act = Respond \<lparr>status = 412,
                sent = \<lparr>message = Some ''Oops, authentication error occurred!'',
                        payload = JObj (spread (body request) (query request)),
                        debug = Some d\<rparr>\<rparr>,
       store = db\<rparr>"
    using a by (simp add: authenticate_handler_def Let_def)
  show "dispatch continues (earlier @ entry_routes F context name key svc @ later) request db =
          [\<lparr>calls = [(ContextAuthenticate, spread (body request) (query request))],
            act = Respond \<lparr>status = 412,
                    sent = \<lparr>message = Some ''Oops, authentication error occurred!'',
                            payload = JObj (spread (body request) (query request)),
                            debug = Some d\<rparr>\<rparr>,
            store = db\<rparr>]"
    using m none a step by (simp add: dispatch_def entry_routes_gate_first [OF flag])
qed

theorem authentication_gate_witness:
  "dispatch (\<lambda>v. True)
     (crud
          \<lparr>string_to_number = (\<lambda>s. JNaN), to_number = (\<lambda>v. Inr JNaN),
            product = (\<lambda>a b. JNaN),
            skip_other = (\<lambda>n rows. Inr rows), limit_other = (\<lambda>n rows. Inr rows)\<rparr>
          ''user'' @
      entry_routes (\<lambda>f d. Resolved (JObj d))
        \<lparr>ctx_authenticate = (\<lambda>d. Rejected (Error ''bad token''))\<rparr> ''user'' ''profile''
        \<lparr>sub_method = ''get'', sub_message = Some ''Profile'', sub_error = Some ''No profile'',
         sub_authenticate = True,
         sub_hooks = Some \<lparr>before = Some [1], after = None\<rparr>, sub_callback = Some 2\<rparr>
      @ [])
     \<lparr>req_method = ''get'', req_path = ''/user/profile'', body = [],
       query = [(''token'', JStr ''x'')]\<rparr>
     \<lparr>docs = [], fault = None, next_id = 0\<rparr>
   = [\<lparr>calls = [(ContextAuthenticate, [(''token'', JStr ''x'')])],
       act = Respond \<lparr>status = 412,
               sent = \<lparr>message = Some ''Oops, authentication error occurred!'',
                       payload = JObj [(''token'', JStr ''x'')],
                       debug = Some ''bad token''\<rparr>\<rparr>,
       store = \<lparr>docs = [], fault = None, next_id = 0\<rparr>\<rparr>]"
  using authentication_gate [of
      "\<lparr>sub_method = ''get'', sub_message = Some ''Profile'', sub_error = Some ''No profile'',
        sub_authenticate = True,
        sub_hooks = Some \<lparr>before = Some [1], after = None\<rparr>, sub_callback = Some 2\<rparr>"
      "\<lambda>f d. Resolved (JObj d)"
      "\<lparr>ctx_authenticate = (\<lambda>d. Rejected (Error ''bad token''))\<rparr>" "''user''" "''profile''"
      "\<lparr>req_method = ''get'', req_path = ''/user/profile'', body = [],
        query = [(''token'', JStr ''x'')]\<rparr>"
      "\<lparr>docs = [], fault = None, next_id = 0\<rparr>" JNull "Error ''bad token''" "''bad token''"
      "crud
          \<lparr>string_to_number = (\<lambda>s. JNaN), to_number = (\<lambda>v. Inr JNaN),
            product = (\<lambda>a b. JNaN),
            skip_other = (\<lambda>n rows. Inr rows), limit_other = (\<lambda>n rows. Inr rows)\<rparr>
          ''user''" "\<lambda>v. True" "[]"]
  by (simp add: eval_defs)

text \<open>
  C5. When the promise of a sub-route hook (before or after) or of the custom
  callback rejects, the handler itself answers: status 422, the descriptor's error
  message, the merged body and query record as payload and the text of the
  exception as debug.  The handler responds; it does not throw.
\<close>

theorem rejection_becomes_error_envelope:
  assumes "F callback (spread (body request) (query request)) = Rejected e"
  shows "act (route_handler (hooker F name key svc callback hook) request db) =
           Respond \<lparr>status = 422,
                    sent = \<lparr>message = sub_error svc,
                            payload = JObj (spread (body request) (query request)),
                            debug = Some (msg e)\<rparr>\<rparr>
       \<and> act (callback_handler F svc callback request db) =
           Respond \<lparr>status = 422,
                    sent = \<lparr>message = sub_error svc,
                            payload = JObj (spread (body request) (query request)),
                            debug = Some (msg e)\<rparr>\<rparr>"
  using assms
  by (simp add: hooker_def hooker_handler_def callback_handler_def Let_def settle_def exit_def)

theorem rejection_becomes_error_envelope_witness:
  "map act (dispatch (\<lambda>v. True)
     (addservices (\<lambda>f d. if f = 2 then Rejected (Error ''no such user'') else Resolved (JObj d))
        \<lparr>ctx_authenticate = (\<lambda>d. Resolved (JBool True))\<rparr> ''user''
        [(''login'',
          \<lparr>sub_method = ''post'', sub_message = Some ''Welcome'', sub_error = Some ''Denied'',
           sub_authenticate = False,
           sub_hooks = Some \<lparr>before = Some [1], after = Some [3]\<rparr>, sub_callback = Some 2\<rparr>)])
     \<lparr>req_method = ''post'', req_path = ''/user/login'',
       body = [(''username'', JStr ''a'')], query = []\<rparr>
     \<lparr>docs = [], fault = None, next_id = 0\<rparr>)
   = [Next (JObj [(''username'', JStr ''a'')]),
      Respond \<lparr>status = 422,
               sent = \<lparr>message = Some ''Denied'',
                       payload = JObj [(''username'', JStr ''a'')],
                       debug = Some ''no such user''\<rparr>\<rparr>]"
  using rejection_becomes_error_envelope [of
      "\<lambda>f d. if f = 2 then Rejected (Error ''no such user'') else Resolved (JObj d)" 2
      "\<lparr>req_method = ''post'', req_path = ''/user/login'',
        body = [(''username'', JStr ''a'')], query = []\<rparr>"
      "Error ''no such user''" "''user''" "''login''"
      "\<lparr>sub_method = ''post'', sub_message = Some ''Welcome'', sub_error = Some ''Denied'',
        sub_authenticate = False,
        sub_hooks = Some \<lparr>before = Some [1], after = Some [3]\<rparr>, sub_callback = Some 2\<rparr>"
      After "\<lparr>docs = [], fault = None, next_id = 0\<rparr>"]
  by (simp add: eval_defs)

text \<open>
  C1. The claim says that the handler of the last entry of the after list emits the
  success envelope.  The handler decides with \<open>indexOf\<close>, which finds the first
  entry holding the hook: for a sub-route whose two after-hooks are the same
  function, the handler of the second (last) entry calls \<open>next(result)\<close> as the first
  does, and the chain ends without any response.
\<close>

theorem repeated_after_hook_never_responds:
  "map act (dispatch (\<lambda>v. True)
     (addservices (\<lambda>f d. Resolved (JObj d))
        \<lparr>ctx_authenticate = (\<lambda>d. Resolved (JBool True))\<rparr> ''user''
        [(''ping'',
          \<lparr>sub_method = ''post'', sub_message = Some ''Done'', sub_error = Some ''Failed'',
           sub_authenticate = False,
           sub_hooks = Some \<lparr>before = None, after = Some [1, 1]\<rparr>, sub_callback = Some 0\<rparr>)])
     \<lparr>req_method = ''post'', req_path = ''/user/ping'', body = [(''a'', JNum 1)], query = []\<rparr>
     \<lparr>docs = [], fault = None, next_id = 0\<rparr>)
   = [Next (JObj [(''a'', JNum 1)]), Next (JObj [(''a'', JNum 1)]),
      Next (JObj [(''a'', JNum 1)])]
   \<and> responses (dispatch (\<lambda>v. True)
     (addservices (\<lambda>f d. Resolved (JObj d))
        \<lparr>ctx_authenticate = (\<lambda>d. Resolved (JBool True))\<rparr> ''user''
        [(''ping'',
          \<lparr>sub_method = ''post'', sub_message = Some ''Done'', sub_error = Some ''Failed'',
           sub_authenticate = False,
           sub_hooks = Some \<lparr>before = None, after = Some [1, 1]\<rparr>, sub_callback = Some 0\<rparr>)])
     \<lparr>req_method = ''post'', req_path = ''/user/ping'', body = [(''a'', JNum 1)], query = []\<rparr>
     \<lparr>docs = [], fault = None, next_id = 0\<rparr>) = []"
  by (simp add: eval_defs)

section \<open>Properties of the CRUD routes\<close>

text \<open>
  C2. The claim says that a PUT for an identifier no record has fails with a
  not-found error and is answered with status 413.  \<open>update\<close> throws its not-found
  error when the value \<open>updateOne\<close> resolves to is falsy, but \<open>updateOne\<close> resolves to
  the write result, an object, whether or not a record matched: the PUT below, for
  an identifier that is not in the collection, is answered with status 200 and the
  updated message, and the collection is unchanged.
\<close>

theorem update_of_missing_record_succeeds:
  "dispatch (\<lambda>v. True) (crud
          \<lparr>string_to_number = (\<lambda>s. JNaN), to_number = (\<lambda>v. Inr JNaN),
            product = (\<lambda>a b. JNaN),
            skip_other = (\<lambda>n rows. Inr rows), limit_other = (\<lambda>n rows. Inr rows)\<rparr>
          ''user'')
     \<lparr>req_method = ''put'', req_path = ''/user'',
       body = [(''_id'', JStr ''2''), (''name'', JStr ''b'')], query = []\<rparr>
     \<lparr>docs = [[(''_id'', JStr ''1''), (''name'', JStr ''a'')]], fault = None, next_id = 1\<rparr>
   = [\<lparr>calls = [(Update, [(''_id'', JStr ''2''), (''name'', JStr ''b'')])],
       act = Respond \<lparr>status = 200,
               sent = \<lparr>message = Some ''Hi, an user has been updated!'',
                       payload = JObj [(''_id'', JStr ''2''), (''name'', JStr ''b'')],
                       debug = None\<rparr>\<rparr>,
       store = \<lparr>docs = [[(''_id'', JStr ''1''), (''name'', JStr ''a'')]],
                fault = None, next_id = 1\<rparr>\<rparr>]"
  by (simp add: crud_eval_defs)

text \<open>
  C3. The GET handler builds the record from body and query and converts its \<open>page\<close>
  and \<open>size\<close> to numbers: a value that is a number already stays as it is, the
  strings \<open>0\<close> and \<open>10\<close> become the numbers 0 and 10, and no string makes the
  conversion throw.  The record then holds the two numbers, and the filter is the
  record without the two keys.  When the converted \<open>page\<close> is greater than -1 and the
  converted \<open>size\<close> is greater than 0, the payload is \<open>{page, length}\<close>: what
  \<open>skip(page * size)\<close> and \<open>limit(size)\<close> leave of the matching records, and the
  number of all matching records.  For whole numbers that is the matching records
  after the first \<open>page * size\<close>, at most \<open>size\<close> of them: 10 records and the count 25
  for page 0, size 10 and 25 matching records.  Otherwise, as when \<open>page\<close> or \<open>size\<close>
  is missing, the payload is the whole matching list.  A success is answered with
  status 200; a rejection by the ORM, or a conversion that throws, with status 404
  and the record as far as it was converted.
\<close>

theorem get_handler_pagination:
  assumes "data = spread (body request) (query request)"
    and "rows = filter (matches (AList.delete ''size'' (AList.delete ''page'' data))) (docs db)"
  shows "calls (get_handler P name request db) = [(Read, data)]
    \<and> (is_number (get data ''page'') \<longrightarrow> Number P (get data ''page'') = Inr (get data ''page''))
    \<and> (is_number (get data ''size'') \<longrightarrow> Number P (get data ''size'') = Inr (get data ''size''))
    \<and> Number P (JStr ''0'') = Inr (JNum 0)
    \<and> Number P (JStr ''10'') = Inr (JNum 10)
    \<and> (\<exists>n. Number P (JStr str) = Inr n)
    \<and> (Number P (get data ''page'') = Inr pg \<and> Number P (get data ''size'') = Inr sz
       \<longrightarrow> is_number pg \<and> is_number sz
           \<and> fst (read P db data) = AList.update ''size'' sz (AList.update ''page'' pg data))
    \<and> (Number P (get data ''page'') = Inr pg \<and> Number P (get data ''size'') = Inr sz
        \<and> fault db = None \<and> exceeds pg (- 1) \<and> exceeds sz 0
       \<longrightarrow> act (get_handler P name request db) =
             (case skip P (multiply P pg sz) rows of
                Inl e \<Rightarrow>
                  Respond \<lparr>status = 404,
                      sent = \<lparr>message = Some (''Oops, could not find '' @ name @ '' list!''),
                              payload = JObj (AList.update ''size'' sz (AList.update ''page'' pg data)),
                              debug = Some (msg e)\<rparr>\<rparr>
              | Inr rest \<Rightarrow>
                  (case limit P sz rest of
                     Inl e \<Rightarrow>
                       Respond \<lparr>status = 404,
                      sent = \<lparr>message = Some (''Oops, could not find '' @ name @ '' list!''),
                              payload = JObj (AList.update ''size'' sz (AList.update ''page'' pg data)),
                              debug = Some (msg e)\<rparr>\<rparr>
                   | Inr shown \<Rightarrow>
                       Respond \<lparr>status = 200,
                      sent = \<lparr>message = Some ''Hi, a data payload is provided!'',
                              payload = JObj [(''page'', JArr (map JObj shown)),
                                     (''length'', JNum (of_nat (length rows)))],
                              debug = None\<rparr>\<rparr>)))
    \<and> (Number P (get data ''page'') = Inr pg \<and> Number P (get data ''size'') = Inr sz
        \<and> fault db = None
        \<and> pg = JNum (of_int p) \<and> - 1 < p
        \<and> sz = JNum (of_int s) \<and> 0 < s \<and> s < 2 ^ 31 \<and> p * s < 2 ^ 31
       \<longrightarrow> act (get_handler P name request db) =
             Respond \<lparr>status = 200,
                      sent = \<lparr>message = Some ''Hi, a data payload is provided!'',
                              payload = JObj [(''page'', JArr (map JObj (take (nat s) (drop (nat (p * s)) rows)))),
                                     (''length'', JNum (of_nat (length rows)))],
                              debug = None\<rparr>\<rparr>)
    \<and> (p = 0 \<and> s = 10 \<and> length rows = 25
       \<longrightarrow> length (take (nat s) (drop (nat (p * s)) rows)) = 10)
    \<and> (Number P (get data ''page'') = Inr pg \<and> Number P (get data ''size'') = Inr sz
        \<and> fault db = None \<and> \<not> (exceeds pg (- 1) \<and> exceeds sz 0)
       \<longrightarrow> act (get_handler P name request db) =
             Respond \<lparr>status = 200,
                      sent = \<lparr>message = Some ''Hi, a data payload is provided!'',
                              payload = JArr (map JObj rows),
                              debug = None\<rparr>\<rparr>)
    \<and> ((get data ''page'' = JUndefined \<or> get data ''size'' = JUndefined)
        \<and> Number P (get data ''page'') = Inr pg \<and> Number P (get data ''size'') = Inr sz \<and> fault db = None
       \<longrightarrow> act (get_handler P name request db) =
             Respond \<lparr>status = 200,
                      sent = \<lparr>message = Some ''Hi, a data payload is provided!'',
                              payload = JArr (map JObj rows),
                              debug = None\<rparr>\<rparr>)
    \<and> (get data ''page'' = JUndefined \<and> get data ''size'' = JUndefined \<and> fault db = None
       \<longrightarrow> act (get_handler P name request db) =
             Respond \<lparr>status = 200,
                      sent = \<lparr>message = Some ''Hi, a data payload is provided!'',
                              payload = JArr (map JObj rows),
                              debug = None\<rparr>\<rparr>)
    \<and> (Number P (get data ''page'') = Inr pg \<and> Number P (get data ''size'') = Inr sz \<and> fault db = Some e
       \<longrightarrow> act (get_handler P name request db) =
             Respond \<lparr>status = 404,
                      sent = \<lparr>message = Some (''Oops, could not find '' @ name @ '' list!''),
                              payload = JObj (AList.update ''size'' sz (AList.update ''page'' pg data)),
                              debug = Some (msg e)\<rparr>\<rparr>)
    \<and> (Number P (get data ''page'') = Inl e
       \<longrightarrow> act (get_handler P name request db) =
             Respond \<lparr>status = 404,
                      sent = \<lparr>message = Some (''Oops, could not find '' @ name @ '' list!''),
                              payload = JObj (data),
                              debug = Some (msg e)\<rparr>\<rparr>)
    \<and> (Number P (get data ''page'') = Inr pg \<and> Number P (get data ''size'') = Inl e
       \<longrightarrow> act (get_handler P name request db) =
             Respond \<lparr>status = 404,
                      sent = \<lparr>message = Some (''Oops, could not find '' @ name @ '' list!''),
                              payload = JObj (AList.update ''page'' pg data),
                              debug = Some (msg e)\<rparr>\<rparr>)"
proof -
  have a: "act (get_handler P name request db) =
      settle (snd (read P db data))
        (\<lambda>v. Inr (Respond (exit v
                \<lparr>o_message = Some ''Hi, a data payload is provided!'',
                 o_status = 200, o_debug = None\<rparr>)))
        (\<lambda>error. Respond (exit (JObj (fst (read P db data)))
                    \<lparr>o_message = Some (''Oops, could not find '' @ name @ '' list!''),
                     o_status = 404, o_debug = Some (msg error)\<rparr>))"
    by (simp add: get_handler_def Let_def assms(1) [symmetric])
  have c1: "calls (get_handler P name request db) = [(Read, data)]"
    by (simp add: get_handler_def Let_def assms(1))
  have c2: "(is_number (get data ''page'') \<longrightarrow> Number P (get data ''page'') = Inr (get data ''page''))"
    by (simp add: Number_idem)
  have c2b: "(is_number (get data ''size'') \<longrightarrow> Number P (get data ''size'') = Inr (get data ''size''))"
    by (simp add: Number_idem)
  have c2c: "Number P (JStr ''0'') = Inr (JNum 0)"
    by (rule Number_digits)
  have c2e: "Number P (JStr ''10'') = Inr (JNum 10)"
    by (rule Number_digits)
  have c2d: "(\<exists>n. Number P (JStr str) = Inr n)"
    by simp
  have c3: "(Number P (get data ''page'') = Inr pg \<and> Number P (get data ''size'') = Inr sz
       \<longrightarrow> is_number pg \<and> is_number sz
           \<and> fst (read P db data) = AList.update ''size'' sz (AList.update ''page'' pg data))"
    by (auto simp: read_result [OF _ _ assms(2)] dest: is_number_Number)
  have c4: "(Number P (get data ''page'') = Inr pg \<and> Number P (get data ''size'') = Inr sz
        \<and> fault db = None \<and> exceeds pg (- 1) \<and> exceeds sz 0
       \<longrightarrow> act (get_handler P name request db) =
             (case skip P (multiply P pg sz) rows of
                Inl e \<Rightarrow>
                  Respond \<lparr>status = 404,
                      sent = \<lparr>message = Some (''Oops, could not find '' @ name @ '' list!''),
                              payload = JObj (AList.update ''size'' sz (AList.update ''page'' pg data)),
                              debug = Some (msg e)\<rparr>\<rparr>
              | Inr rest \<Rightarrow>
                  (case limit P sz rest of
                     Inl e \<Rightarrow>
                       Respond \<lparr>status = 404,
                      sent = \<lparr>message = Some (''Oops, could not find '' @ name @ '' list!''),
                              payload = JObj (AList.update ''size'' sz (AList.update ''page'' pg data)),
                              debug = Some (msg e)\<rparr>\<rparr>
                   | Inr shown \<Rightarrow>
                       Respond \<lparr>status = 200,
                      sent = \<lparr>message = Some ''Hi, a data payload is provided!'',
                              payload = JObj [(''page'', JArr (map JObj shown)),
                                     (''length'', JNum (of_nat (length rows)))],
                              debug = None\<rparr>\<rparr>)))"
    by (auto simp: a read_result [OF _ _ assms(2)] settle_def exit_def split: sum.splits)
  have c5: "(Number P (get data ''page'') = Inr pg \<and> Number P (get data ''size'') = Inr sz
        \<and> fault db = None
        \<and> pg = JNum (of_int p) \<and> - 1 < p
        \<and> sz = JNum (of_int s) \<and> 0 < s \<and> s < 2 ^ 31 \<and> p * s < 2 ^ 31
       \<longrightarrow> act (get_handler P name request db) =
             Respond \<lparr>status = 200,
                      sent = \<lparr>message = Some ''Hi, a data payload is provided!'',
                              payload = JObj [(''page'', JArr (map JObj (take (nat s) (drop (nat (p * s)) rows)))),
                                     (''length'', JNum (of_nat (length rows)))],
                              debug = None\<rparr>\<rparr>)"
  proof
    assume h: "Number P (get data ''page'') = Inr pg \<and> Number P (get data ''size'') = Inr sz
        \<and> fault db = None
        \<and> pg = JNum (of_int p) \<and> - 1 < p
        \<and> sz = JNum (of_int s) \<and> 0 < s \<and> s < 2 ^ 31 \<and> p * s < 2 ^ 31"
    then have nn: "0 \<le> p * s" by simp
    from h have ex: "exceeds pg (- 1) \<and> exceeds sz 0" by simp
    from h have b: "p * s < 2 ^ 31"
      and pgs: "pg = JNum (of_int p)"
      and szs: "sz = JNum (of_int s)" and s0: "0 < s" and s1: "s < 2 ^ 31"
      and fn: "fault db = None"
      and n1: "Number P (get data ''page'') = Inr pg"
      and n2: "Number P (get data ''size'') = Inr sz"
      by blast+
    have pr: "multiply P pg sz = JNum (of_int (p * s))"
      unfolding pgs szs by (rule multiply_whole [OF nn b])
    have sk: "skip P (multiply P pg sz) rows = Inr (drop (nat (p * s)) rows)"
      unfolding pr by (rule skip_whole [OF nn b])
    have li: "limit P sz (drop (nat (p * s)) rows)
                     = Inr (take (nat s) (drop (nat (p * s)) rows))"
      unfolding szs by (rule limit_whole [OF s0 s1])
    have "read P db data =
        (AList.update ''size'' sz (AList.update ''page'' pg data),
         Resolved (JObj [(''page'', JArr (map JObj (take (nat s) (drop (nat (p * s)) rows)))),
                        (''length'', JNum (of_nat (length rows)))]))"
      unfolding read_result [OF n1 n2 assms(2)] by (simp add: fn ex sk li)
    then show "act (get_handler P name request db) =
             Respond \<lparr>status = 200,
                      sent = \<lparr>message = Some ''Hi, a data payload is provided!'',
                              payload = JObj [(''page'', JArr (map JObj (take (nat s) (drop (nat (p * s)) rows)))),
                                     (''length'', JNum (of_nat (length rows)))],
                              debug = None\<rparr>\<rparr>"
      unfolding a by (simp add: settle_def exit_def)
  qed
  have c5b: "(p = 0 \<and> s = 10 \<and> length rows = 25
       \<longrightarrow> length (take (nat s) (drop (nat (p * s)) rows)) = 10)"
    by simp
  have c6: "(Number P (get data ''page'') = Inr pg \<and> Number P (get data ''size'') = Inr sz
        \<and> fault db = None \<and> \<not> (exceeds pg (- 1) \<and> exceeds sz 0)
       \<longrightarrow> act (get_handler P name request db) =
             Respond \<lparr>status = 200,
                      sent = \<lparr>message = Some ''Hi, a data payload is provided!'',
                              payload = JArr (map JObj rows),
                              debug = None\<rparr>\<rparr>)"
    by (auto simp: a read_result [OF _ _ assms(2)] settle_def exit_def)
  have c7a: "((get data ''page'' = JUndefined \<or> get data ''size'' = JUndefined)
        \<and> Number P (get data ''page'') = Inr pg \<and> Number P (get data ''size'') = Inr sz \<and> fault db = None
       \<longrightarrow> act (get_handler P name request db) =
             Respond \<lparr>status = 200,
                      sent = \<lparr>message = Some ''Hi, a data payload is provided!'',
                              payload = JArr (map JObj rows),
                              debug = None\<rparr>\<rparr>)"
  proof
    assume h: "(get data ''page'' = JUndefined \<or> get data ''size'' = JUndefined)
        \<and> Number P (get data ''page'') = Inr pg \<and> Number P (get data ''size'') = Inr sz \<and> fault db = None"
    then have "pg = JNaN \<or> sz = JNaN"
      by auto
    then have "\<not> (exceeds pg (- 1) \<and> exceeds sz 0)"
      by auto
    with h c6 show "act (get_handler P name request db) =
             Respond \<lparr>status = 200,
                      sent = \<lparr>message = Some ''Hi, a data payload is provided!'',
                              payload = JArr (map JObj rows),
                              debug = None\<rparr>\<rparr>"
      by blast
  qed
  have c7: "(get data ''page'' = JUndefined \<and> get data ''size'' = JUndefined \<and> fault db = None
       \<longrightarrow> act (get_handler P name request db) =
             Respond \<lparr>status = 200,
                      sent = \<lparr>message = Some ''Hi, a data payload is provided!'',
                              payload = JArr (map JObj rows),
                              debug = None\<rparr>\<rparr>)"
  proof
    assume h: "get data ''page'' = JUndefined \<and> get data ''size'' = JUndefined \<and> fault db = None"
    then have n1: "Number P (get data ''page'') = Inr JNaN"
      and n2: "Number P (get data ''size'') = Inr JNaN"
      by simp_all
    from h show "act (get_handler P name request db) =
             Respond \<lparr>status = 200,
                      sent = \<lparr>message = Some ''Hi, a data payload is provided!'',
                              payload = JArr (map JObj rows),
                              debug = None\<rparr>\<rparr>"
      by (simp add: a read_result [OF n1 n2 assms(2)] settle_def exit_def)
  qed
  have c8: "(Number P (get data ''page'') = Inr pg \<and> Number P (get data ''size'') = Inr sz \<and> fault db = Some e
       \<longrightarrow> act (get_handler P name request db) =
             Respond \<lparr>status = 404,
                      sent = \<lparr>message = Some (''Oops, could not find '' @ name @ '' list!''),
                              payload = JObj (AList.update ''size'' sz (AList.update ''page'' pg data)),
                              debug = Some (msg e)\<rparr>\<rparr>)"
    by (auto simp: a read_result [OF _ _ assms(2)] settle_def exit_def)
  have c9: "(Number P (get data ''page'') = Inl e
       \<longrightarrow> act (get_handler P name request db) =
             Respond \<lparr>status = 404,
                      sent = \<lparr>message = Some (''Oops, could not find '' @ name @ '' list!''),
                              payload = JObj (data),
                              debug = Some (msg e)\<rparr>\<rparr>)"
    by (simp add: a read_throws_page settle_def exit_def)
  have c10: "(Number P (get data ''page'') = Inr pg \<and> Number P (get data ''size'') = Inl e
       \<longrightarrow> act (get_handler P name request db) =
             Respond \<lparr>status = 404,
                      sent = \<lparr>message = Some (''Oops, could not find '' @ name @ '' list!''),
                              payload = JObj (AList.update ''page'' pg data),
                              debug = Some (msg e)\<rparr>\<rparr>)"
    by (auto simp: a read_throws_size settle_def exit_def)
  from c1 c2 c2b c2c c2e c2d c3 c4 c5 c5b c6 c7a c7 c8 c9 c10 show ?thesis
    by (intro conjI)
qed

theorem get_handler_pagination_witness:
  "map act (dispatch (\<lambda>v. \<not> truthy v)
     (crud
       \<lparr>string_to_number = (\<lambda>s. JNaN), to_number = (\<lambda>v. Inr JNaN),
       product = (\<lambda>a b. JNaN),
       skip_other = (\<lambda>n rows. Inl (Error ''skip'')),
       limit_other = (\<lambda>n rows. Inl (Error ''limit''))\<rparr>
       ''user'')
     \<lparr>req_method = ''get'', req_path = ''/user'', body = [],
       query = [(''kind'', JStr ''x''), (''page'', JStr ''0''), (''size'', JStr ''10'')]\<rparr>
     \<lparr>docs =
       [[(''_id'', JNum 1), (''kind'', JStr ''x'')],
        [(''_id'', JNum 2), (''kind'', JStr ''x'')],
        [(''_id'', JNum 3), (''kind'', JStr ''x'')],
        [(''_id'', JNum 4), (''kind'', JStr ''x'')],
        [(''_id'', JNum 5), (''kind'', JStr ''x'')],
        [(''_id'', JNum 6), (''kind'', JStr ''x'')],
        [(''_id'', JNum 7), (''kind'', JStr ''x'')],
        [(''_id'', JNum 8), (''kind'', JStr ''x'')],
        [(''_id'', JNum 9), (''kind'', JStr ''x'')],
        [(''_id'', JNum 10), (''kind'', JStr ''x'')],
        [(''_id'', JNum 11), (''kind'', JStr ''x'')],
        [(''_id'', JNum 12), (''kind'', JStr ''x'')],
        [(''_id'', JNum 13), (''kind'', JStr ''x'')],
        [(''_id'', JNum 14), (''kind'', JStr ''x'')],
        [(''_id'', JNum 15), (''kind'', JStr ''x'')],
        [(''_id'', JNum 16), (''kind'', JStr ''x'')],
        [(''_id'', JNum 17), (''kind'', JStr ''x'')],
        [(''_id'', JNum 18), (''kind'', JStr ''x'')],
        [(''_id'', JNum 19), (''kind'', JStr ''x'')],
        [(''_id'', JNum 20), (''kind'', JStr ''x'')],
        [(''_id'', JNum 21), (''kind'', JStr ''x'')],
        [(''_id'', JNum 22), (''kind'', JStr ''x'')],
        [(''_id'', JNum 23), (''kind'', JStr ''x'')],
        [(''_id'', JNum 24), (''kind'', JStr ''x'')],
        [(''_id'', JNum 25), (''kind'', JStr ''x'')]],
      fault = None, next_id = 26\<rparr>)
   = [Respond \<lparr>status = 200,
               sent = \<lparr>message = Some ''Hi, a data payload is provided!'',
                       payload = JObj
                         [(''page'', JArr
                [JObj [(''_id'', JNum 1), (''kind'', JStr ''x'')],
                 JObj [(''_id'', JNum 2), (''kind'', JStr ''x'')],
                 JObj [(''_id'', JNum 3), (''kind'', JStr ''x'')],
                 JObj [(''_id'', JNum 4), (''kind'', JStr ''x'')],
                 JObj [(''_id'', JNum 5), (''kind'', JStr ''x'')],
                 JObj [(''_id'', JNum 6), (''kind'', JStr ''x'')],
                 JObj [(''_id'', JNum 7), (''kind'', JStr ''x'')],
                 JObj [(''_id'', JNum 8), (''kind'', JStr ''x'')],
                 JObj [(''_id'', JNum 9), (''kind'', JStr ''x'')],
                 JObj [(''_id'', JNum 10), (''kind'', JStr ''x'')]]),
                          (''length'', JNum 25)],
                       debug = None\<rparr>\<rparr>]"
proof -
  have d: "spread (body \<lparr>req_method = ''get'', req_path = ''/user'', body = [],
       query = [(''kind'', JStr ''x''), (''page'', JStr ''0''), (''size'', JStr ''10'')]\<rparr>) (query \<lparr>req_method = ''get'', req_path = ''/user'', body = [],
       query = [(''kind'', JStr ''x''), (''page'', JStr ''0''), (''size'', JStr ''10'')]\<rparr>) =
      [(''kind'', JStr ''x''), (''page'', JStr ''0''), (''size'', JStr ''10'')]"
    by (simp add: spread_def assign_def)
  have r: "filter (matches (AList.delete ''size'' (AList.delete ''page''
              [(''kind'', JStr ''x''), (''page'', JStr ''0''), (''size'', JStr ''10'')])))
            (docs \<lparr>docs =
       [[(''_id'', JNum 1), (''kind'', JStr ''x'')],
        [(''_id'', JNum 2), (''kind'', JStr ''x'')],
        [(''_id'', JNum 3), (''kind'', JStr ''x'')],
        [(''_id'', JNum 4), (''kind'', JStr ''x'')],
        [(''_id'', JNum 5), (''kind'', JStr ''x'')],
        [(''_id'', JNum 6), (''kind'', JStr ''x'')],
        [(''_id'', JNum 7), (''kind'', JStr ''x'')],
        [(''_id'', JNum 8), (''kind'', JStr ''x'')],
        [(''_id'', JNum 9), (''kind'', JStr ''x'')],
        [(''_id'', JNum 10), (''kind'', JStr ''x'')],
        [(''_id'', JNum 11), (''kind'', JStr ''x'')],
        [(''_id'', JNum 12), (''kind'', JStr ''x'')],
        [(''_id'', JNum 13), (''kind'', JStr ''x'')],
        [(''_id'', JNum 14), (''kind'', JStr ''x'')],
        [(''_id'', JNum 15), (''kind'', JStr ''x'')],
        [(''_id'', JNum 16), (''kind'', JStr ''x'')],
        [(''_id'', JNum 17), (''kind'', JStr ''x'')],
        [(''_id'', JNum 18), (''kind'', JStr ''x'')],
        [(''_id'', JNum 19), (''kind'', JStr ''x'')],
        [(''_id'', JNum 20), (''kind'', JStr ''x'')],
        [(''_id'', JNum 21), (''kind'', JStr ''x'')],
        [(''_id'', JNum 22), (''kind'', JStr ''x'')],
        [(''_id'', JNum 23), (''kind'', JStr ''x'')],
        [(''_id'', JNum 24), (''kind'', JStr ''x'')],
        [(''_id'', JNum 25), (''kind'', JStr ''x'')]],
      fault = None, next_id = 26\<rparr>)
           = docs \<lparr>docs =
       [[(''_id'', JNum 1), (''kind'', JStr ''x'')],
        [(''_id'', JNum 2), (''kind'', JStr ''x'')],
        [(''_id'', JNum 3), (''kind'', JStr ''x'')],
        [(''_id'', JNum 4), (''kind'', JStr ''x'')],
        [(''_id'', JNum 5), (''kind'', JStr ''x'')],
        [(''_id'', JNum 6), (''kind'', JStr ''x'')],
        [(''_id'', JNum 7), (''kind'', JStr ''x'')],
        [(''_id'', JNum 8), (''kind'', JStr ''x'')],
        [(''_id'', JNum 9), (''kind'', JStr ''x'')],
        [(''_id'', JNum 10), (''kind'', JStr ''x'')],
        [(''_id'', JNum 11), (''kind'', JStr ''x'')],
        [(''_id'', JNum 12), (''kind'', JStr ''x'')],
        [(''_id'', JNum 13), (''kind'', JStr ''x'')],
        [(''_id'', JNum 14), (''kind'', JStr ''x'')],
        [(''_id'', JNum 15), (''kind'', JStr ''x'')],
        [(''_id'', JNum 16), (''kind'', JStr ''x'')],
        [(''_id'', JNum 17), (''kind'', JStr ''x'')],
        [(''_id'', JNum 18), (''kind'', JStr ''x'')],
        [(''_id'', JNum 19), (''kind'', JStr ''x'')],
        [(''_id'', JNum 20), (''kind'', JStr ''x'')],
        [(''_id'', JNum 21), (''kind'', JStr ''x'')],
        [(''_id'', JNum 22), (''kind'', JStr ''x'')],
        [(''_id'', JNum 23), (''kind'', JStr ''x'')],
        [(''_id'', JNum 24), (''kind'', JStr ''x'')],
        [(''_id'', JNum 25), (''kind'', JStr ''x'')]],
      fault = None, next_id = 26\<rparr>"
    by (simp add: matches_def)
  have "act (get_handler
       \<lparr>string_to_number = (\<lambda>s. JNaN), to_number = (\<lambda>v. Inr JNaN),
       product = (\<lambda>a b. JNaN),
       skip_other = (\<lambda>n rows. Inl (Error ''skip'')),
       limit_other = (\<lambda>n rows. Inl (Error ''limit''))\<rparr>
       ''user'' \<lparr>req_method = ''get'', req_path = ''/user'', body = [],
       query = [(''kind'', JStr ''x''), (''page'', JStr ''0''), (''size'', JStr ''10'')]\<rparr> \<lparr>docs =
       [[(''_id'', JNum 1), (''kind'', JStr ''x'')],
        [(''_id'', JNum 2), (''kind'', JStr ''x'')],
        [(''_id'', JNum 3), (''kind'', JStr ''x'')],
        [(''_id'', JNum 4), (''kind'', JStr ''x'')],
        [(''_id'', JNum 5), (''kind'', JStr ''x'')],
        [(''_id'', JNum 6), (''kind'', JStr ''x'')],
        [(''_id'', JNum 7), (''kind'', JStr ''x'')],
        [(''_id'', JNum 8), (''kind'', JStr ''x'')],
        [(''_id'', JNum 9), (''kind'', JStr ''x'')],
        [(''_id'', JNum 10), (''kind'', JStr ''x'')],
        [(''_id'', JNum 11), (''kind'', JStr ''x'')],
        [(''_id'', JNum 12), (''kind'', JStr ''x'')],
        [(''_id'', JNum 13), (''kind'', JStr ''x'')],
        [(''_id'', JNum 14), (''kind'', JStr ''x'')],
        [(''_id'', JNum 15), (''kind'', JStr ''x'')],
        [(''_id'', JNum 16), (''kind'', JStr ''x'')],
        [(''_id'', JNum 17), (''kind'', JStr ''x'')],
        [(''_id'', JNum 18), (''kind'', JStr ''x'')],
        [(''_id'', JNum 19), (''kind'', JStr ''x'')],
        [(''_id'', JNum 20), (''kind'', JStr ''x'')],
        [(''_id'', JNum 21), (''kind'', JStr ''x'')],
        [(''_id'', JNum 22), (''kind'', JStr ''x'')],
        [(''_id'', JNum 23), (''kind'', JStr ''x'')],
        [(''_id'', JNum 24), (''kind'', JStr ''x'')],
        [(''_id'', JNum 25), (''kind'', JStr ''x'')]],
      fault = None, next_id = 26\<rparr>) =
         Respond \<lparr>status = 200,
               sent = \<lparr>message = Some ''Hi, a data payload is provided!'',
                       payload = JObj
                         [(''page'', JArr
                [JObj [(''_id'', JNum 1), (''kind'', JStr ''x'')],
                 JObj [(''_id'', JNum 2), (''kind'', JStr ''x'')],
                 JObj [(''_id'', JNum 3), (''kind'', JStr ''x'')],
                 JObj [(''_id'', JNum 4), (''kind'', JStr ''x'')],
                 JObj [(''_id'', JNum 5), (''kind'', JStr ''x'')],
                 JObj [(''_id'', JNum 6), (''kind'', JStr ''x'')],
                 JObj [(''_id'', JNum 7), (''kind'', JStr ''x'')],
                 JObj [(''_id'', JNum 8), (''kind'', JStr ''x'')],
                 JObj [(''_id'', JNum 9), (''kind'', JStr ''x'')],
                 JObj [(''_id'', JNum 10), (''kind'', JStr ''x'')]]),
                          (''length'', JNum 25)],
                       debug = None\<rparr>\<rparr>"
    using get_handler_pagination [OF d [symmetric] r [symmetric],
        where name = "''user''" and p = 0 and s = 10 and e = "Error []"
          and pg = "JNum 0" and sz = "JNum 10" and str = "[]" and P = "
       \<lparr>string_to_number = (\<lambda>s. JNaN), to_number = (\<lambda>v. Inr JNaN),
       product = (\<lambda>a b. JNaN),
       skip_other = (\<lambda>n rows. Inl (Error ''skip'')),
       limit_other = (\<lambda>n rows. Inl (Error ''limit''))\<rparr>"]
    by (simp add: get_def StringToNumber_def digit_def skip_def limit_def multiply_def whole_def)
  then show ?thesis
    by (simp add: dispatch_def crud_def)
qed

section \<open>Properties of authorize\<close>

text \<open>
  C6. \<open>authorize\<close> throws the validation error when the username is missing or
  empty (or falsy in any other way).  Otherwise it looks for the first record of the
  user collection matching the given username and password: when there is none it
  rejects with \<open>Oops, username or password is incorrect!\<close>, when there is one it
  resolves to that record.  Whatever it resolves to is a stored record that matches
  both conditions, so for a password given as a string the record returned holds
  that very password: a wrong password never yields the stored record.
\<close>

theorem authorize_checks_credentials:
  assumes "conditions = [(''username'', get data ''username''),
                         (''password'', get data ''password'')]"
  shows "(\<not> truthy (get data ''username'')
          \<longrightarrow> authorize users data = Thrown (Error ''Oops, username is required!''))
    \<and> (get data ''username'' = JUndefined \<or> get data ''username'' = JStr []
          \<longrightarrow> authorize users data = Thrown (Error ''Oops, username is required!''))
    \<and> (truthy (get data ''username'') \<and> fault users = None
          \<and> List.find (matches conditions) (docs users) = None
          \<longrightarrow> authorize users data =
                Rejected (Error ''Oops, username or password is incorrect!''))
    \<and> (truthy (get data ''username'') \<and> fault users = None
          \<and> List.find (matches conditions) (docs users) = Some r
          \<longrightarrow> authorize users data = Resolved (JObj r))
    \<and> (authorize users data = Resolved v
          \<longrightarrow> (\<exists>r \<in> set (docs users). v = JObj r \<and> matches conditions r))
    \<and> (authorize users data = Resolved v \<and> get data ''password'' = JStr p
          \<longrightarrow> (\<exists>r \<in> set (docs users). v = JObj r
                 \<and> get r ''username'' = get data ''username''
                 \<and> get r ''password'' = JStr p))"
proof (intro conjI impI)
  assume "\<not> truthy (get data ''username'')"
  then show "authorize users data = Thrown (Error ''Oops, username is required!'')"
    by (simp add: authorize_def)
next
  assume "get data ''username'' = JUndefined \<or> get data ''username'' = JStr []"
  then show "authorize users data = Thrown (Error ''Oops, username is required!'')"
    by (auto simp: authorize_def)
next
  assume "truthy (get data ''username'') \<and> fault users = None
          \<and> List.find (matches conditions) (docs users) = None"
  then show "authorize users data =
                Rejected (Error ''Oops, username or password is incorrect!'')"
    by (simp add: authorize_def findOne_def assms)
next
  assume "truthy (get data ''username'') \<and> fault users = None
          \<and> List.find (matches conditions) (docs users) = Some r"
  then show "authorize users data = Resolved (JObj r)"
    by (simp add: authorize_def findOne_def assms)
next
  assume "authorize users data = Resolved v"
  then show "\<exists>r \<in> set (docs users). v = JObj r \<and> matches conditions r"
    unfolding assms by (rule authorize_resolved)
next
  assume h: "authorize users data = Resolved v \<and> get data ''password'' = JStr p"
  then obtain r where r: "r \<in> set (docs users)" "v = JObj r"
      and m: "matches [(''username'', get data ''username''),
                       (''password'', get data ''password'')] r"
    using authorize_resolved by blast
  from m h have "get r ''username'' = get data ''username''" "get r ''password'' = JStr p"
    by (simp_all add: matches_credentials get_def)
  with r show "\<exists>r \<in> set (docs users). v = JObj r
                 \<and> get r ''username'' = get data ''username''
                 \<and> get r ''password'' = JStr p"
    by blast
qed

theorem authorize_checks_credentials_witness:
  "authorize \<lparr>docs = [[(''username'', JStr ''a''), (''password'', JStr ''right'')]],
              fault = None, next_id = 1\<rparr>
     [(''username'', JStr ''a''), (''password'', JStr ''wrong'')]
   = Rejected (Error ''Oops, username or password is incorrect!'')"
proof -
  have none: "List.find (matches [(''username'', get [(''username'', JStr ''a''), (''password'', JStr ''wrong'')] ''username''),
                     (''password'', get [(''username'', JStr ''a''), (''password'', JStr ''wrong'')] ''password'')])
          (docs \<lparr>docs = [[(''username'', JStr ''a''), (''password'', JStr ''right'')]],
                  fault = None, next_id = 1\<rparr>) = None"
    by (simp add: get_def matches_def)
  have name: "truthy (get [(''username'', JStr ''a''), (''password'', JStr ''wrong'')] ''username'')"
    by (simp add: get_def)
  have ok: "fault \<lparr>docs = [[(''username'', JStr ''a''), (''password'', JStr ''right'')]],
                  fault = None, next_id = 1\<rparr> = None"
    by simp
  from authorize_checks_credentials [OF refl,
      where data = "[(''username'', JStr ''a''), (''password'', JStr ''wrong'')]"
        and users = "\<lparr>docs = [[(''username'', JStr ''a''), (''password'', JStr ''right'')]],
                       fault = None, next_id = 1\<rparr>"
        and r = "[]" and v = JNull and p = "[]"]
  have "truthy (get [(''username'', JStr ''a''), (''password'', JStr ''wrong'')] ''username'')
        \<and> fault \<lparr>docs = [[(''username'', JStr ''a''), (''password'', JStr ''right'')]],
                  fault = None, next_id = 1\<rparr> = None
        \<and> List.find (matches [(''username'', get [(''username'', JStr ''a''), (''password'', JStr ''wrong'')] ''username''),
                     (''password'', get [(''username'', JStr ''a''), (''password'', JStr ''wrong'')] ''password'')])
          (docs \<lparr>docs = [[(''username'', JStr ''a''), (''password'', JStr ''right'')]],
                  fault = None, next_id = 1\<rparr>) = None
        \<longrightarrow> authorize \<lparr>docs = [[(''username'', JStr ''a''), (''password'', JStr ''right'')]],
              fault = None, next_id = 1\<rparr>
             [(''username'', JStr ''a''), (''password'', JStr ''wrong'')]
           = Rejected (Error ''Oops, username or password is incorrect!'')"
    by (elim conjE)
  with name ok none show ?thesis by blast
qed

section \<open>Properties of the cache hooks\<close>

text \<open>
  C10. Handed a document, the post-save hook stores it under its identifier and
  adds one to the count, the post-update hook stores it in place of the entry and
  leaves the count, and the post-remove hook deletes its entry and leaves the
  count.  So in any life of a cache that starts fresh and in which updates replace,
  after a save that is followed by a remove of the same record the count exceeds
  the number of entries.
\<close>

theorem cache_hooks:
  "post_save (Doc v) c =
     Inr (c\<lparr>cache_data := (cache_data c)(doc_id v \<mapsto> v), cache_count := cache_count c + 1\<rparr>)
   \<and> post_update (Doc v) c = Inr (c\<lparr>cache_data := (cache_data c)(doc_id v \<mapsto> v)\<rparr>)
   \<and> post_remove (Doc v) c = Inr (c\<lparr>cache_data := (cache_data c)(doc_id v := None)\<rparr>)
   \<and> (replacing (earlier @ Saved v # between @ [Removed v]) fresh_cache
       \<longrightarrow> entries (run (earlier @ Saved v # between @ [Removed v]) fresh_cache)
           < cache_count (run (earlier @ Saved v # between @ [Removed v]) fresh_cache))"
proof (intro conjI impI)
  show "post_save (Doc v) c =
     Inr (c\<lparr>cache_data := (cache_data c)(doc_id v \<mapsto> v), cache_count := cache_count c + 1\<rparr>)"
    by (simp add: post_save_def)
  show "post_update (Doc v) c = Inr (c\<lparr>cache_data := (cache_data c)(doc_id v \<mapsto> v)\<rparr>)"
    by (simp add: post_update_def)
  show "post_remove (Doc v) c = Inr (c\<lparr>cache_data := (cache_data c)(doc_id v := None)\<rparr>)"
    by (simp add: post_remove_def)
next
  assume r: "replacing (earlier @ Saved v # between @ [Removed v]) fresh_cache"
  define c0 where "c0 = run earlier fresh_cache"
  define c1 where "c1 = fire (Saved v) c0"
  define c2 where "c2 = run between c1"
  from r have r0: "replacing earlier fresh_cache"
    and r1: "replacing between c1"
    by (simp_all add: replacing_append c0_def c1_def del: fire.simps)
  from r0 have "sound c0"
    unfolding c0_def by (rule sound_run) (rule sound_fresh)
  then have "kept (doc_id v) c1"
    unfolding c1_def by (rule kept_after_save)
  with r1 have "kept (doc_id v) c2"
    unfolding c2_def by (rule kept_run)
  then have "entries (fire (Removed v) c2) < cache_count (fire (Removed v) c2)"
    by (rule ahead_after_remove)
  moreover have "run (earlier @ Saved v # between @ [Removed v]) fresh_cache = fire (Removed v) c2"
    by (simp add: run_append c0_def c1_def c2_def del: fire.simps)
  ultimately show "entries (run (earlier @ Saved v # between @ [Removed v]) fresh_cache)
           < cache_count (run (earlier @ Saved v # between @ [Removed v]) fresh_cache)"
    by simp
qed

theorem cache_hooks_witness:
  "replacing ([Updated (Plain [(''n'', JNum 1)]), Saved \<lparr>doc_id = ''1'', doc_fields = []\<rparr>]
                 @ Saved \<lparr>doc_id = ''2'', doc_fields = []\<rparr>
                 # [Updated (Doc \<lparr>doc_id = ''2'', doc_fields = [(''a'', JNum 1)]\<rparr>)]
                 @ [Removed \<lparr>doc_id = ''2'', doc_fields = []\<rparr>]) fresh_cache
   \<and> entries (run ([Updated (Plain [(''n'', JNum 1)]),
                    Saved \<lparr>doc_id = ''1'', doc_fields = []\<rparr>]
                 @ Saved \<lparr>doc_id = ''2'', doc_fields = []\<rparr>
                 # [Updated (Doc \<lparr>doc_id = ''2'', doc_fields = [(''a'', JNum 1)]\<rparr>)]
                 @ [Removed \<lparr>doc_id = ''2'', doc_fields = []\<rparr>]) fresh_cache) = 1
   \<and> cache_count (run ([Updated (Plain [(''n'', JNum 1)]),
                        Saved \<lparr>doc_id = ''1'', doc_fields = []\<rparr>]
                 @ Saved \<lparr>doc_id = ''2'', doc_fields = []\<rparr>
                 # [Updated (Doc \<lparr>doc_id = ''2'', doc_fields = [(''a'', JNum 1)]\<rparr>)]
                 @ [Removed \<lparr>doc_id = ''2'', doc_fields = []\<rparr>]) fresh_cache) = 2"
  using cache_hooks [of "\<lparr>doc_id = ''2'', doc_fields = []\<rparr>" fresh_cache
      "[Updated (Plain [(''n'', JNum 1)]), Saved \<lparr>doc_id = ''1'', doc_fields = []\<rparr>]"
      "[Updated (Doc \<lparr>doc_id = ''2'', doc_fields = [(''a'', JNum 1)]\<rparr>)]"]
  by (simp add: entries_def fresh_cache_def post_save_def post_update_def post_remove_def)

end
